theory Spec2Isabelle
  imports Main "HOL-Library.AList"
begin

section \<open>JSON values and the JavaScript operations the routes apply to them\<close>

text \<open>
  The request body and the stored layout document are JSON. A value read from a
  missing property is \<open>JUndefined\<close>. Numbers are modelled as integers (identifiers,
  capacities, rows and columns are), strings as byte strings. An object keeps its
  properties in insertion order.
\<close>

datatype jv =
    JUndefined
  | JNull
  | JBool bool
  | JNum int
  | JStr string
  | JArr "jv list"
  | JObj "(string \<times> jv) list"

datatype failure = TypeError | DbError | IoError

text \<open>Truthiness, as \<open>if (v)\<close>, \<open>!v\<close>, \<open>a && b\<close> and \<open>a || b\<close> read it.\<close>

fun truthy :: "jv \<Rightarrow> bool" where
  "truthy JUndefined = False"
| "truthy JNull = False"
| "truthy (JBool b) = b"
| "truthy (JNum n) = (n \<noteq> 0)"
| "truthy (JStr s) = (s \<noteq> [])"
| "truthy (JArr xs) = True"
| "truthy (JObj kvs) = True"

definition js_or :: "jv \<Rightarrow> jv \<Rightarrow> jv" where
  "js_or a b = (if truthy a then a else b)"

text \<open>
  Strict equality \<open>===\<close>. The values compared come from separately parsed
  parts of the body, so two arrays or two objects are never the same reference.
\<close>

fun strict_eq :: "jv \<Rightarrow> jv \<Rightarrow> bool" where
  "strict_eq JUndefined JUndefined = True"
| "strict_eq JNull JNull = True"
| "strict_eq (JBool a) (JBool b) = (a = b)"
| "strict_eq (JNum a) (JNum b) = (a = b)"
| "strict_eq (JStr a) (JStr b) = (a = b)"
| "strict_eq a b = False"

text \<open>
  Property read \<open>v.k\<close>: a TypeError on \<open>null\<close> and \<open>undefined\<close>, the property
  of an object, and \<open>undefined\<close> on everything else (none of the names the routes read
  is a built-in property of a string, number, boolean or array).
\<close>

fun getp :: "jv \<Rightarrow> string \<Rightarrow> failure + jv" where
  "getp JUndefined k = Inl TypeError"
| "getp JNull k = Inl TypeError"
| "getp (JObj kvs) k = Inr (case map_of kvs k of None \<Rightarrow> JUndefined | Some v \<Rightarrow> v)"
| "getp v k = Inr JUndefined"

text \<open>
  Property write \<open>v.k = x\<close> in sloppy mode (the module has no strict-mode directive):
  ignored on a primitive. An array is an object, so the property is kept beside its
  elements; the routes never read an element or the length of such a value, therefore
  only its named properties are kept.
\<close>

fun setp :: "jv \<Rightarrow> string \<Rightarrow> jv \<Rightarrow> jv" where
  "setp (JObj kvs) k x = JObj (AList.update k x kvs)"
| "setp (JArr xs) k x = JObj [(k, x)]"
| "setp v k x = v"

text \<open>\<open>typeof v === 'object'\<close>\<close>

fun typeof_object :: "jv \<Rightarrow> bool" where
  "typeof_object JNull = True"
| "typeof_object (JArr xs) = True"
| "typeof_object (JObj kvs) = True"
| "typeof_object v = False"

subsection \<open>Strings\<close>

definition digit_char :: "nat \<Rightarrow> char" where
  "digit_char d = ''0123456789'' ! (d mod 10)"

fun show_nat :: "nat \<Rightarrow> string" where
  "show_nat n = (if n < 10 then [digit_char n] else show_nat (n div 10) @ [digit_char (n mod 10)])"

declare show_nat.simps [simp del]

definition show_int :: "int \<Rightarrow> string" where
  "show_int i = (if i < 0 then CHR ''-'' # show_nat (nat (- i)) else show_nat (nat i))"

fun join :: "string \<Rightarrow> string list \<Rightarrow> string" where
  "join sep [] = []"
| "join sep [x] = x"
| "join sep (x # y # ys) = x @ sep @ join sep (y # ys)"

text \<open>
  \<open>String(v)\<close>, as a template literal applies it. Integers print in decimal (JavaScript
  switches to exponent notation from \<open>10^21\<close> on, which no identifier reaches).
\<close>

fun js_to_string :: "jv \<Rightarrow> string" where
  "js_to_string JUndefined = ''undefined''"
| "js_to_string JNull = ''null''"
| "js_to_string (JBool b) = (if b then ''true'' else ''false'')"
| "js_to_string (JNum n) = show_int n"
| "js_to_string (JStr s) = s"
| "js_to_string (JArr xs) =
     join '','' (map (\<lambda>x. if x = JNull \<or> x = JUndefined then [] else js_to_string x) xs)"
| "js_to_string (JObj kvs) = ''[object Object]''"

definition starts_with :: "string \<Rightarrow> string \<Rightarrow> bool" where
  "starts_with p s = (take (length p) s = p)"

definition to_upper_char :: "char \<Rightarrow> char" where
  "to_upper_char c =
     (case map_of (zip ''abcdefghijklmnopqrstuvwxyz'' ''ABCDEFGHIJKLMNOPQRSTUVWXYZ'') c of
        None \<Rightarrow> c | Some u \<Rightarrow> u)"

text \<open>
  \<open>s.toUpperCase()\<close>, exact wherever the result is made of ASCII letters only, which is
  all a comparison with the labels of an enumeration can see: the ASCII letters, and the
  two other letters whose upper case is an ASCII letter, dotless i (bytes C4 B1) and long
  s (bytes C5 BF). Every other character has an upper case outside ASCII; its bytes are
  kept.
\<close>

fun toUpperCase :: "string \<Rightarrow> string" where
  "toUpperCase [] = []"
| "toUpperCase [c] = [to_upper_char c]"
| "toUpperCase (c # c' # cs) =
     (if c = CHR 0xC4 \<and> c' = CHR 0xB1 then CHR ''I'' # toUpperCase cs
      else if c = CHR 0xC5 \<and> c' = CHR 0xBF then CHR ''S'' # toUpperCase cs
      else to_upper_char c # toUpperCase (c' # cs))"

subsection \<open>\<open>parseInt\<close>\<close>

definition is_space :: "char \<Rightarrow> bool" where
  "is_space c = (c \<in> set [CHR '' '', CHR 0x09, CHR 0x0A, CHR 0x0B, CHR 0x0C, CHR 0x0D])"

definition digit_of :: "nat \<Rightarrow> char \<Rightarrow> nat option" where
  "digit_of radix c =
     (case map_of (zip ''0123456789abcdefABCDEF''
                    [0, 1, 2, 3, 4, 5, 6, 7, 8, 9, 10, 11, 12, 13, 14, 15, 10, 11, 12, 13, 14, 15]) c of
        None \<Rightarrow> None
      | Some d \<Rightarrow> if d < radix then Some d else None)"

fun take_digits :: "nat \<Rightarrow> string \<Rightarrow> nat list" where
  "take_digits radix [] = []"
| "take_digits radix (c # cs) =
     (case digit_of radix c of None \<Rightarrow> [] | Some d \<Rightarrow> d # take_digits radix cs)"

definition digits_value :: "nat \<Rightarrow> nat list \<Rightarrow> nat" where
  "digits_value radix ds = foldl (\<lambda>a d. a * radix + d) 0 ds"

definition strip_sign :: "string \<Rightarrow> bool \<times> string" where
  "strip_sign s =
     (case s of
        [] \<Rightarrow> (False, [])
      | c # r \<Rightarrow> if c = CHR ''-'' then (True, r) else if c = CHR ''+'' then (False, r) else (False, s))"

definition signed :: "bool \<Rightarrow> nat \<Rightarrow> int" where
  "signed neg n = (if neg then - int n else int n)"

text \<open>
  \<open>parseInt(s)\<close> of a string: leading white space, a sign, a \<open>0x\<close> prefix for
  radix 16, then the longest run of digits; \<open>None\<close> is \<open>NaN\<close>.
\<close>

definition parseInt_string :: "string \<Rightarrow> int option" where
  "parseInt_string s =
     (let (neg, s2) = strip_sign (dropWhile is_space s);
          hex = (starts_with ''0x'' s2 \<or> starts_with ''0X'' s2);
          radix = (if hex then 16 else 10);
          ds = take_digits radix (if hex then drop 2 s2 else s2)
      in if ds = [] then None else Some (signed neg (digits_value radix ds)))"

text \<open>
  \<open>parseInt(v)\<close> converts its argument to a string first; on an integer that gives the
  integer back.
\<close>

definition js_parseInt :: "jv \<Rightarrow> int option" where
  "js_parseInt v = (case v of JNum n \<Rightarrow> Some n | _ \<Rightarrow> parseInt_string (js_to_string v))"

subsection \<open>\<open>JSON.stringify\<close>\<close>

definition hex_char :: "nat \<Rightarrow> char" where
  "hex_char d = ''0123456789abcdef'' ! (d mod 16)"

definition json_escape_char :: "char \<Rightarrow> string" where
  "json_escape_char c =
     (if c = CHR 0x22 then [CHR 0x5C, CHR 0x22]
      else if c = CHR 0x5C then [CHR 0x5C, CHR 0x5C]
      else if c = CHR 0x08 then [CHR 0x5C, CHR ''b'']
      else if c = CHR 0x09 then [CHR 0x5C, CHR ''t'']
      else if c = CHR 0x0A then [CHR 0x5C, CHR ''n'']
      else if c = CHR 0x0C then [CHR 0x5C, CHR ''f'']
      else if c = CHR 0x0D then [CHR 0x5C, CHR ''r'']
      else if (of_char c :: nat) < 32
        then [CHR 0x5C, CHR ''u'', CHR ''0'', CHR ''0'', hex_char (of_char c div 16), hex_char (of_char c)]
      else [c])"

definition json_quote :: "string \<Rightarrow> string" where
  "json_quote s = CHR 0x22 # concat (map json_escape_char s) @ [CHR 0x22]"

fun json_stringify :: "jv \<Rightarrow> string" where
  "json_stringify JUndefined = ''null''"
| "json_stringify JNull = ''null''"
| "json_stringify (JBool b) = (if b then ''true'' else ''false'')"
| "json_stringify (JNum n) = show_int n"
| "json_stringify (JStr s) = json_quote s"
| "json_stringify (JArr xs) = ''['' @ join '','' (map json_stringify xs) @ '']''"
| "json_stringify (JObj kvs) =
     ''{'' @ join '','' (map (\<lambda>(k, v). json_quote k @ '':'' @ json_stringify v)
                          (filter (\<lambda>(k, v). v \<noteq> JUndefined) kvs)) @ ''}''"

section \<open>The database\<close>

subsection \<open>Query parameters as PostgreSQL reads them\<close>

text \<open>
  The driver sends every parameter as text: \<open>null\<close> and \<open>undefined\<close> as NULL, a string
  as it is, a number or boolean printed, an array as an array literal, any other object
  as its JSON text. The server then reads the text as the type of the column.
\<close>

definition escapeElement :: "string \<Rightarrow> string" where
  "escapeElement s =
     CHR 0x22 # concat (map (\<lambda>c. if c = CHR 0x5C \<or> c = CHR 0x22 then [CHR 0x5C, c] else [c]) s)
       @ [CHR 0x22]"

fun arrayString :: "jv \<Rightarrow> string" where
  "arrayString JUndefined = ''NULL''"
| "arrayString JNull = ''NULL''"
| "arrayString (JArr xs) = ''{'' @ join '','' (map arrayString xs) @ ''}''"
| "arrayString (JBool b) = escapeElement (if b then ''true'' else ''false'')"
| "arrayString (JNum n) = escapeElement (show_int n)"
| "arrayString (JStr s) = escapeElement s"
| "arrayString (JObj kvs) = escapeElement (json_stringify (JObj kvs))"

fun prepareValue :: "jv \<Rightarrow> string option" where
  "prepareValue JUndefined = None"
| "prepareValue JNull = None"
| "prepareValue (JBool b) = Some (if b then ''true'' else ''false'')"
| "prepareValue (JNum n) = Some (show_int n)"
| "prepareValue (JStr s) = Some s"
| "prepareValue (JArr xs) = Some (arrayString (JArr xs))"
| "prepareValue (JObj kvs) = Some (json_stringify (JObj kvs))"

text \<open>
  Integer input: white space, an optional sign, decimal digits, white space. (Recent
  servers read a few more notations; here they are input errors.)
\<close>

definition pg_parse_int :: "string \<Rightarrow> int option" where
  "pg_parse_int s =
     (let (neg, s2) = strip_sign (dropWhile is_space s);
          ds = take_digits 10 s2
      in if ds = [] \<or> \<not> list_all is_space (drop (length ds) s2) then None
         else Some (signed neg (digits_value 10 ds)))"

definition int4_range :: "int \<Rightarrow> bool" where
  "int4_range n = (- 2147483648 \<le> n \<and> n \<le> 2147483647)"

text \<open>A parameter for an INT column or compared with one; \<open>Inr None\<close> is NULL.\<close>

definition pg_int4 :: "jv \<Rightarrow> failure + int option" where
  "pg_int4 v =
     (case v of
        JNum n \<Rightarrow> if int4_range n then Inr (Some n) else Inl DbError
      | _ \<Rightarrow>
        (case prepareValue v of
           None \<Rightarrow> Inr None
         | Some s \<Rightarrow>
           (case pg_parse_int s of
              None \<Rightarrow> Inl DbError
            | Some n \<Rightarrow> if int4_range n then Inr (Some n) else Inl DbError)))"

text \<open>
  \<open>VARCHAR(n)\<close> counts characters, not bytes; a value that is too long is an error
  unless the excess is blanks, which are cut off.
\<close>

definition utf8_length :: "string \<Rightarrow> nat" where
  "utf8_length s = length (filter (\<lambda>c. \<not> (128 \<le> (of_char c :: nat) \<and> (of_char c :: nat) < 192)) s)"

definition varchar :: "nat \<Rightarrow> string \<Rightarrow> failure + string" where
  "varchar n s =
     (if utf8_length s \<le> n then Inr s
      else if list_all (\<lambda>c. c = CHR '' '') (take (utf8_length s - n) (rev s))
        then Inr (rev (drop (utf8_length s - n) (rev s)))
      else Inl DbError)"

definition tipo_area :: "string list" where
  "tipo_area = [''GENERAL'', ''VIP'', ''ESCENARIO'', ''RESERVADO'']"

definition estado_asiento :: "string list" where
  "estado_asiento = [''DISPONIBLE'', ''OCUPADO'', ''RESERVADO'', ''BLOQUEADO'']"

text \<open>A parameter for a NOT NULL column of an enumeration type.\<close>

definition pg_enum :: "string list \<Rightarrow> jv \<Rightarrow> failure + string" where
  "pg_enum labels v =
     (case prepareValue v of
        None \<Rightarrow> Inl DbError
      | Some s \<Rightarrow> if s \<in> set labels then Inr s else Inl DbError)"

text \<open>
  A parameter for the JSON column: an object arrives as its JSON text and reads back as
  the same object; an array arrives as an array literal, which is JSON text only when the
  array is empty (\<open>{}\<close>, the empty object). The route passes nothing but objects and arrays.
\<close>

fun pg_json :: "jv \<Rightarrow> failure + jv" where
  "pg_json (JObj kvs) = Inr (JObj kvs)"
| "pg_json (JArr []) = Inr (JObj [])"
| "pg_json v = Inl DbError"

subsection \<open>Tables\<close>

text \<open>
  The columns the routes read or write (schema.sql). Serial keys come from sequences,
  which are shared with other sessions and not rolled back with a transaction: the
  values they hand out are part of the environment, as is the failure of a query for a
  reason outside the data (a lost connection, a timeout).
\<close>

record evento_row =
  eventoid :: int
  lugarid :: "int option"

record area_row =
  ar_areaid :: int
  ar_nombre :: string
  ar_capacidad :: int
  ar_tipo :: string
  ar_lugarid :: int

record asiento_row =
  asientoid :: int
  codigo :: "string option"
  fila :: "int option"
  columna :: "int option"
  estado :: string
  areaid :: int

record croquis_row =
  croquisid :: int
  cr_eventoid :: int
  configuracion :: jv

record db =
  Lugar :: "int list"
  Evento :: "evento_row list"
  Area :: "area_row list"
  Asiento :: "asiento_row list"
  Croquis :: "croquis_row list"

datatype query =
    Q_event | Q_connect | Q_begin | Q_commit
  | Q_insert_area nat
  | Q_croquis_check | Q_croquis_write
  | Q_insert_asiento nat | Q_seat_event_check nat | Q_update_asiento nat
  | Q_final_layout | Q_final_seats
  | Q_area_check | Q_delete_area | Q_croquis_select

record env =
  io_fails :: "query \<Rightarrow> bool"
  area_serial :: "nat \<Rightarrow> int"
  asiento_serial :: "nat \<Rightarrow> int"
  croquis_serial :: int

text \<open>
  \<open>INSERT INTO Area (nombre, capacidad, tipo, lugarID) VALUES ($1, $2, $3, $4)
  RETURNING areaID\<close>, issued for the table entry at index \<open>i\<close>.
\<close>

definition insert_area ::
  "env \<Rightarrow> nat \<Rightarrow> string \<Rightarrow> jv \<Rightarrow> jv \<Rightarrow> int \<Rightarrow> db \<Rightarrow> failure + (int \<times> db)" where
  "insert_area e i nombre capacidad tipo lugarID d =
     (if io_fails e (Q_insert_area i) then Inl IoError
      else case varchar 100 nombre of Inl x \<Rightarrow> Inl x | Inr nom \<Rightarrow>
        (case pg_int4 capacidad of Inl x \<Rightarrow> Inl x | Inr None \<Rightarrow> Inl DbError | Inr (Some cap) \<Rightarrow>
          (case pg_enum tipo_area tipo of Inl x \<Rightarrow> Inl x | Inr tip \<Rightarrow>
            (if cap \<le> 0 then Inl DbError
             else if lugarID \<notin> set (Lugar d) then Inl DbError
             else if area_serial e i \<in> set (map ar_areaid (Area d)) then Inl DbError
             else Inr (area_serial e i,
                       d\<lparr>Area := Area d @
                           [\<lparr>ar_areaid = area_serial e i, ar_nombre = nom, ar_capacidad = cap,
                             ar_tipo = tip, ar_lugarid = lugarID\<rparr>]\<rparr>)))))"

text \<open>
  \<open>INSERT INTO Asiento (codigo, fila, columna, estado, areaID) VALUES ($1, $2, $3, $4, $5)\<close>,
  issued for the seat descriptor at index \<open>j\<close>.
\<close>

definition insert_asiento ::
  "env \<Rightarrow> nat \<Rightarrow> jv \<Rightarrow> jv \<Rightarrow> jv \<Rightarrow> string \<Rightarrow> jv \<Rightarrow> db \<Rightarrow> failure + db" where
  "insert_asiento e j cod fil col est areaID d =
     (if io_fails e (Q_insert_asiento j) then Inl IoError
      else case (case prepareValue cod of None \<Rightarrow> Inr None
                 | Some s \<Rightarrow> (case varchar 20 s of Inl x \<Rightarrow> Inl x | Inr c \<Rightarrow> Inr (Some c))) of
        Inl x \<Rightarrow> Inl x | Inr c \<Rightarrow>
        (case pg_int4 fil of Inl x \<Rightarrow> Inl x | Inr f \<Rightarrow>
          (case pg_int4 col of Inl x \<Rightarrow> Inl x | Inr k \<Rightarrow>
            (case pg_enum estado_asiento (JStr est) of Inl x \<Rightarrow> Inl x | Inr st \<Rightarrow>
              (case pg_int4 areaID of Inl x \<Rightarrow> Inl x | Inr None \<Rightarrow> Inl DbError | Inr (Some a) \<Rightarrow>
                (if a \<notin> set (map ar_areaid (Area d)) then Inl DbError
                 else if asiento_serial e j \<in> set (map asientoid (Asiento d)) then Inl DbError
                 else Inr (d\<lparr>Asiento := Asiento d @
                             [\<lparr>asientoid = asiento_serial e j, codigo = c, fila = f, columna = k,
                               estado = st, areaid = a\<rparr>]\<rparr>)))))))"

text \<open>
  \<open>SELECT a.asientoID FROM Asiento a JOIN Area ar ON a.areaID = ar.areaID
  WHERE a.asientoID = $1 AND ar.lugarID = $2\<close>
\<close>

definition seat_event_check :: "env \<Rightarrow> nat \<Rightarrow> jv \<Rightarrow> int \<Rightarrow> db \<Rightarrow> failure + int list" where
  "seat_event_check e j asientoID lugarID d =
     (if io_fails e (Q_seat_event_check j) then Inl IoError
      else case pg_int4 asientoID of Inl x \<Rightarrow> Inl x | Inr None \<Rightarrow> Inr []
        | Inr (Some n) \<Rightarrow>
            Inr [asientoid a. a \<leftarrow> Asiento d, ar \<leftarrow> Area d, areaid a = ar_areaid ar,
                              asientoid a = n \<and> ar_lugarid ar = lugarID])"

text \<open>\<open>UPDATE Asiento SET estado = $1 WHERE asientoID = $2\<close>\<close>

definition update_asiento :: "env \<Rightarrow> nat \<Rightarrow> string \<Rightarrow> jv \<Rightarrow> db \<Rightarrow> failure + db" where
  "update_asiento e j est asientoID d =
     (if io_fails e (Q_update_asiento j) then Inl IoError
      else case pg_enum estado_asiento (JStr est) of Inl x \<Rightarrow> Inl x | Inr st \<Rightarrow>
        (case pg_int4 asientoID of Inl x \<Rightarrow> Inl x | Inr None \<Rightarrow> Inr d
         | Inr (Some n) \<Rightarrow>
             Inr (d\<lparr>Asiento := map (\<lambda>a. if asientoid a = n then a\<lparr>estado := st\<rparr> else a) (Asiento d)\<rparr>)))"

text \<open>\<open>SELECT ... FROM Croquis WHERE eventoID = $1\<close>\<close>

definition select_croquis :: "db \<Rightarrow> int \<Rightarrow> croquis_row list" where
  "select_croquis d eventoID = filter (\<lambda>c. cr_eventoid c = eventoID) (Croquis d)"

text \<open>\<open>UPDATE Croquis SET configuracion = $1, fechaModificacion = NOW() WHERE eventoID = $2\<close>\<close>

definition update_croquis :: "jv \<Rightarrow> int \<Rightarrow> db \<Rightarrow> failure + db" where
  "update_croquis config eventoID d =
     (case pg_json config of Inl x \<Rightarrow> Inl x
      | Inr c \<Rightarrow>
          Inr (d\<lparr>Croquis := map (\<lambda>r. if cr_eventoid r = eventoID then r\<lparr>configuracion := c\<rparr> else r)
                               (Croquis d)\<rparr>))"

text \<open>
  \<open>INSERT INTO Croquis(eventoID, configuracion, fechaCreacion, fechaModificacion)\<close>:
  \<open>eventoID\<close> is unique and references Evento.
\<close>

definition insert_croquis :: "env \<Rightarrow> int \<Rightarrow> jv \<Rightarrow> db \<Rightarrow> failure + db" where
  "insert_croquis e eventoID config d =
     (case pg_json config of Inl x \<Rightarrow> Inl x
      | Inr c \<Rightarrow>
          if eventoID \<notin> set (map eventoid (Evento d)) then Inl DbError
          else if eventoID \<in> set (map cr_eventoid (Croquis d)) then Inl DbError
          else if croquis_serial e \<in> set (map croquisid (Croquis d)) then Inl DbError
          else Inr (d\<lparr>Croquis := Croquis d @
                      [\<lparr>croquisid = croquis_serial e, cr_eventoid = eventoID, configuracion = c\<rparr>]\<rparr>))"

text \<open>
  The seat list both write routes return:
  \<open>SELECT a.asientoID, a.codigo, a.fila, a.columna, a.estado, a.areaID AS areaid
  FROM Asiento a JOIN Area ar ON a.areaID = ar.areaID JOIN Evento e ON ar.lugarID = e.lugarID
  WHERE e.eventoID = $1 ORDER BY a.asientoID ASC\<close>
\<close>

definition select_seats :: "db \<Rightarrow> int \<Rightarrow> asiento_row list" where
  "select_seats d eventoID =
     sort_key asientoid
       [a. a \<leftarrow> Asiento d, ar \<leftarrow> Area d, areaid a = ar_areaid ar,
           e \<leftarrow> Evento d, lugarid e = Some (ar_lugarid ar), eventoid e = eventoID]"

text \<open>The read route joins through Lugar as well.\<close>

definition select_seats_via_lugar :: "db \<Rightarrow> int \<Rightarrow> asiento_row list" where
  "select_seats_via_lugar d eventoID =
     sort_key asientoid
       [a. a \<leftarrow> Asiento d, ar \<leftarrow> Area d, areaid a = ar_areaid ar,
           l \<leftarrow> Lugar d, ar_lugarid ar = l,
           e \<leftarrow> Evento d, lugarid e = Some l, eventoid e = eventoID]"

text \<open>\<open>rows[0] ? rows[0].configuracion : dflt\<close> on \<open>SELECT configuracion FROM Croquis WHERE eventoID = $1\<close>\<close>

definition select_layout :: "db \<Rightarrow> int \<Rightarrow> jv \<Rightarrow> jv" where
  "select_layout d eventoID dflt =
     (case select_croquis d eventoID of [] \<Rightarrow> dflt | r # rs \<Rightarrow> configuracion r)"

section \<open>The layout routes (routes/eventRoutes.js)\<close>

text \<open>
  A response: status 200 with \<open>layoutConfig\<close> and \<open>seats\<close> (the write routes add a message
  to them), another status, or none.
\<close>

datatype response =
    Layout jv "asiento_row list"
  | Status nat
  | Unhandled

subsection \<open>\<open>PUT /:eventoID/layout\<close>: new areas\<close>

text \<open>
  The test on a table entry:
  \<open>(table.areaid && typeof table.areaid === 'number' && table.areaid > 1000000000)
  || (table.id && table.id.startsWith('new-table-'))\<close>.
  A truthy \<open>id\<close> that is not a string has no \<open>startsWith\<close>.
\<close>

definition is_new_area :: "jv \<Rightarrow> failure + bool" where
  "is_new_area table =
     (case getp table ''areaid'' of Inl x \<Rightarrow> Inl x
      | Inr a \<Rightarrow>
        if (case a of JNum n \<Rightarrow> n > 1000000000 | _ \<Rightarrow> False) then Inr True
        else (case getp table ''id'' of Inl x \<Rightarrow> Inl x
              | Inr i \<Rightarrow>
                if \<not> truthy i then Inr False
                else (case i of JStr s \<Rightarrow> Inr (starts_with ''new-table-'' s) | _ \<Rightarrow> Inl TypeError)))"

text \<open>The body of \<open>asientos.forEach\<close>.\<close>

definition rewrite_seat :: "jv \<Rightarrow> int \<Rightarrow> jv \<Rightarrow> failure + jv" where
  "rewrite_seat tempAreaId realArea asiento =
     (case getp asiento ''areaID'' of Inl x \<Rightarrow> Inl x
      | Inr a \<Rightarrow>
        (case (if strict_eq a tempAreaId then Inr True
               else case getp asiento ''areaid'' of Inl x \<Rightarrow> Inl x
                    | Inr b \<Rightarrow> Inr (strict_eq b tempAreaId)) of
           Inl x \<Rightarrow> Inl x
         | Inr True \<Rightarrow> Inr (setp (setp asiento ''areaID'' (JNum realArea)) ''areaid'' (JNum realArea))
         | Inr False \<Rightarrow> Inr asiento))"

fun rewrite_seats :: "jv \<Rightarrow> int \<Rightarrow> jv list \<Rightarrow> failure + jv list" where
  "rewrite_seats tempAreaId realArea [] = Inr []"
| "rewrite_seats tempAreaId realArea (asiento # rest) =
     (case rewrite_seat tempAreaId realArea asiento of Inl x \<Rightarrow> Inl x
      | Inr asiento' \<Rightarrow>
        (case rewrite_seats tempAreaId realArea rest of Inl x \<Rightarrow> Inl x
         | Inr rest' \<Rightarrow> Inr (asiento' # rest')))"

definition area_prefix :: string where
  "area_prefix = CHR 0xC3 # CHR 0x81 # ''rea ''"

text \<open>
  One new area: the insert with
  \<open>[`Area ${table.nombre || table.id}`, table.capacidad || 50, table.tipo || 'GENERAL', lugarIDDelEvento]\<close>
  (the name starts with a capital A with acute accent), then the two assignments to the
  table entry. The result is the rewritten entry, the temporary and the real area id, and
  the database.
\<close>

definition create_area :: "env \<Rightarrow> int \<Rightarrow> nat \<Rightarrow> jv \<Rightarrow> db \<Rightarrow> failure + (jv \<times> jv \<times> int \<times> db)" where
  "create_area e lugarIDDelEvento i table d =
     (case getp table ''areaid'' of Inl x \<Rightarrow> Inl x | Inr tempAreaId \<Rightarrow>
      (case getp table ''nombre'' of Inl x \<Rightarrow> Inl x | Inr nombre \<Rightarrow>
       (case getp table ''id'' of Inl x \<Rightarrow> Inl x | Inr ident \<Rightarrow>
        (case getp table ''capacidad'' of Inl x \<Rightarrow> Inl x | Inr capacidad \<Rightarrow>
         (case getp table ''tipo'' of Inl x \<Rightarrow> Inl x | Inr tipo \<Rightarrow>
          (case insert_area e i (area_prefix @ js_to_string (js_or nombre ident))
                  (js_or capacidad (JNum 50)) (js_or tipo (JStr ''GENERAL'')) lugarIDDelEvento d of
             Inl x \<Rightarrow> Inl x
           | Inr (realArea, d') \<Rightarrow>
               Inr (setp (setp table ''areaid'' (JNum realArea)) ''id''
                      (JStr (''area-'' @ show_int realArea)),
                    tempAreaId, realArea, d')))))))"

text \<open>
  The loop over \<open>configuracionCroquis.tables\<close>, from index \<open>i\<close> on. It returns the table
  entries and the seat list as the loop leaves them.
\<close>

fun remap_tables ::
  "env \<Rightarrow> int \<Rightarrow> nat \<Rightarrow> jv list \<Rightarrow> jv list \<Rightarrow> db \<Rightarrow> failure + (jv list \<times> jv list \<times> db)" where
  "remap_tables e lugar i [] asientos d = Inr ([], asientos, d)"
| "remap_tables e lugar i (table # rest) asientos d =
     (case is_new_area table of Inl x \<Rightarrow> Inl x
      | Inr False \<Rightarrow>
        (case remap_tables e lugar (Suc i) rest asientos d of Inl x \<Rightarrow> Inl x
         | Inr (rest', asientos', d') \<Rightarrow> Inr (table # rest', asientos', d'))
      | Inr True \<Rightarrow>
        (case create_area e lugar i table d of Inl x \<Rightarrow> Inl x
         | Inr (table', tempAreaId, realArea, d1) \<Rightarrow>
           (case rewrite_seats tempAreaId realArea asientos of Inl x \<Rightarrow> Inl x
            | Inr asientos1 \<Rightarrow>
              (case remap_tables e lugar (Suc i) rest asientos1 d1 of Inl x \<Rightarrow> Inl x
               | Inr (rest', asientos', d') \<Rightarrow> Inr (table' # rest', asientos', d')))))"

text \<open>
  \<open>if (configuracionCroquis && configuracionCroquis.tables && Array.isArray(configuracionCroquis.tables))\<close>:
  the entries are rewritten in place, so the document holds the rewritten list afterwards.
\<close>

definition remap_config :: "env \<Rightarrow> int \<Rightarrow> jv \<Rightarrow> jv list \<Rightarrow> db \<Rightarrow> failure + (jv \<times> jv list \<times> db)" where
  "remap_config e lugar config asientos d =
     (if \<not> truthy config then Inr (config, asientos, d)
      else case getp config ''tables'' of Inl x \<Rightarrow> Inl x
        | Inr (JArr tables) \<Rightarrow>
            (case remap_tables e lugar 0 tables asientos d of Inl x \<Rightarrow> Inl x
             | Inr (tables', asientos', d') \<Rightarrow> Inr (setp config ''tables'' (JArr tables'), asientos', d'))
        | Inr other \<Rightarrow> Inr (config, asientos, d))"

subsection \<open>\<open>PUT /:eventoID/layout\<close>: the layout document\<close>

definition upsert_croquis :: "env \<Rightarrow> int \<Rightarrow> jv \<Rightarrow> db \<Rightarrow> failure + db" where
  "upsert_croquis e eventoID config d =
     (if io_fails e Q_croquis_check then Inl IoError
      else if config = JUndefined then Inr d
      else if io_fails e Q_croquis_write then Inl IoError
      else if select_croquis d eventoID \<noteq> [] then update_croquis config eventoID d
      else insert_croquis e eventoID config d)"

subsection \<open>\<open>PUT /:eventoID/layout\<close>: seats\<close>

text \<open>
  \<open>asiento.asientoID === undefined || (typeof asiento.asientoID === 'number' &&
  asiento.asientoID > 1000000000) || asiento.isNew\<close>
\<close>

definition isNewSeat :: "jv \<Rightarrow> failure + bool" where
  "isNewSeat asiento =
     (case getp asiento ''asientoID'' of Inl x \<Rightarrow> Inl x
      | Inr sid \<Rightarrow>
        if sid = JUndefined \<or> (case sid of JNum n \<Rightarrow> n > 1000000000 | _ \<Rightarrow> False) then Inr True
        else (case getp asiento ''isNew'' of Inl x \<Rightarrow> Inl x | Inr m \<Rightarrow> Inr (truthy m)))"

text \<open>\<open>!areaID || isNaN(parseInt(areaID)) || parseInt(areaID) <= 0\<close>\<close>

definition invalid_areaID :: "jv \<Rightarrow> bool" where
  "invalid_areaID areaID =
     (\<not> truthy areaID \<or> (case js_parseInt areaID of None \<Rightarrow> True | Some n \<Rightarrow> n \<le> 0))"

text \<open>\<open>asiento.estado.toUpperCase()\<close>: only a string has the method.\<close>

definition estado_upper :: "jv \<Rightarrow> failure + string" where
  "estado_upper asiento =
     (case getp asiento ''estado'' of Inl x \<Rightarrow> Inl x
      | Inr (JStr s) \<Rightarrow> Inr (toUpperCase s)
      | Inr other \<Rightarrow> Inl TypeError)"

text \<open>The body of the loop over \<open>asientos\<close>, for the descriptor at index \<open>j\<close>.\<close>

definition process_seat :: "env \<Rightarrow> int \<Rightarrow> nat \<Rightarrow> jv \<Rightarrow> db \<Rightarrow> failure + db" where
  "process_seat e lugarIDDelEvento j asiento d =
     (case isNewSeat asiento of Inl x \<Rightarrow> Inl x
      | Inr True \<Rightarrow>
        (case getp asiento ''areaID'' of Inl x \<Rightarrow> Inl x | Inr areaID \<Rightarrow>
          if invalid_areaID areaID then Inr d
          else (case getp asiento ''codigo'' of Inl x \<Rightarrow> Inl x | Inr cod \<Rightarrow>
            (case getp asiento ''fila'' of Inl x \<Rightarrow> Inl x | Inr fil \<Rightarrow>
              (case getp asiento ''columna'' of Inl x \<Rightarrow> Inl x | Inr col \<Rightarrow>
                (case estado_upper asiento of Inl x \<Rightarrow> Inl x | Inr est \<Rightarrow>
                  insert_asiento e j cod (js_or fil JNull) (js_or col JNull) est areaID d)))))
      | Inr False \<Rightarrow>
        (case getp asiento ''asientoID'' of Inl x \<Rightarrow> Inl x | Inr asientoID \<Rightarrow>
          (case seat_event_check e j asientoID lugarIDDelEvento d of Inl x \<Rightarrow> Inl x
           | Inr [] \<Rightarrow> Inr d
           | Inr (r # rs) \<Rightarrow>
             (case estado_upper asiento of Inl x \<Rightarrow> Inl x
              | Inr est \<Rightarrow> update_asiento e j est asientoID d))))"

fun process_seats :: "env \<Rightarrow> int \<Rightarrow> nat \<Rightarrow> jv list \<Rightarrow> db \<Rightarrow> failure + db" where
  "process_seats e lugar j [] d = Inr d"
| "process_seats e lugar j (asiento # rest) d =
     (case process_seat e lugar j asiento d of Inl x \<Rightarrow> Inl x
      | Inr d' \<Rightarrow> process_seats e lugar (Suc j) rest d')"

subsection \<open>\<open>PUT /:eventoID/layout\<close>: the route\<close>

text \<open>What runs between \<open>BEGIN\<close> and \<open>COMMIT\<close> once the venue is known.\<close>

definition transaction_steps :: "env \<Rightarrow> int \<Rightarrow> int \<Rightarrow> jv \<Rightarrow> jv list \<Rightarrow> db \<Rightarrow> failure + db" where
  "transaction_steps e eventoID lugarIDDelEvento configuracionCroquis asientos d =
     (case remap_config e lugarIDDelEvento configuracionCroquis asientos d of Inl x \<Rightarrow> Inl x
      | Inr (config', asientos', d1) \<Rightarrow>
        (case upsert_croquis e eventoID config' d1 of Inl x \<Rightarrow> Inl x
         | Inr d2 \<Rightarrow> process_seats e lugarIDDelEvento 0 asientos' d2))"

text \<open>
  The route. \<open>eventoID\<close> is the path parameter, a decimal integer; \<open>configuracionCroquis\<close>
  and \<open>asientos\<close> are the two properties of the body, \<open>JUndefined\<close> when absent. The
  result is the response and the database afterwards: a \<open>ROLLBACK\<close> gives back the
  database the request started from.
\<close>

definition put_layout :: "env \<Rightarrow> int \<Rightarrow> jv \<Rightarrow> jv \<Rightarrow> db \<Rightarrow> response \<times> db" where
  "put_layout e eventoID configuracionCroquis asientos d =
     (if io_fails e Q_event then (Status 500, d)
      else case filter (\<lambda>r. eventoid r = eventoID) (Evento d) of
        [] \<Rightarrow> (Status 404, d)
      | eventDetails # others \<Rightarrow>
        if configuracionCroquis \<noteq> JUndefined \<and>
           (\<not> typeof_object configuracionCroquis \<or> configuracionCroquis = JNull)
        then (Status 400, d)
        else (case asientos of
          JArr seats \<Rightarrow>
            if io_fails e Q_connect then (Status 500, d)
            else if io_fails e Q_begin then (Status 500, d)
            else (case lugarid eventDetails of
              None \<Rightarrow> (Status 500, d)
            | Some lugarIDDelEvento \<Rightarrow>
              (case transaction_steps e eventoID lugarIDDelEvento configuracionCroquis seats d of
                 Inl x \<Rightarrow> (Status 500, d)
               | Inr d' \<Rightarrow>
                 if io_fails e Q_commit then (Status 500, d)
                 else if io_fails e Q_final_layout \<or> io_fails e Q_final_seats then (Status 500, d')
                 else (Layout (select_layout d' eventoID JNull) (select_seats d' eventoID), d')))
        | other \<Rightarrow> (Status 400, d)))"

subsection \<open>\<open>GET /:eventoID/layout\<close>\<close>

definition get_layout :: "env \<Rightarrow> int \<Rightarrow> db \<Rightarrow> response" where
  "get_layout e eventoID d =
     (if io_fails e Q_event then Status 500
      else if filter (\<lambda>r. eventoid r = eventoID) (Evento d) = [] then Status 404
      else if io_fails e Q_final_layout \<or> io_fails e Q_final_seats then Status 500
      else Layout (select_layout d eventoID JNull) (select_seats_via_lugar d eventoID))"

subsection \<open>\<open>DELETE /:eventoID/areas/:areaID\<close>\<close>

text \<open>\<open>currentConfig.tables.filter(table => table.areaid !== parseInt(areaID))\<close>\<close>

fun filter_tables :: "int \<Rightarrow> jv list \<Rightarrow> failure + jv list" where
  "filter_tables areaID [] = Inr []"
| "filter_tables areaID (table # rest) =
     (case getp table ''areaid'' of Inl x \<Rightarrow> Inl x
      | Inr a \<Rightarrow>
        (case filter_tables areaID rest of Inl x \<Rightarrow> Inl x
         | Inr rest' \<Rightarrow> Inr (if strict_eq a (JNum areaID) then rest' else table # rest')))"

text \<open>
  \<open>SELECT ar.areaID, ar.lugarID FROM Area ar JOIN Lugar l ON ar.lugarID = l.lugarID
  JOIN Evento e ON l.lugarID = e.lugarID WHERE ar.areaID = $1 AND e.eventoID = $2\<close>
\<close>

definition area_check :: "db \<Rightarrow> int \<Rightarrow> int \<Rightarrow> area_row list" where
  "area_check d areaID eventoID =
     [ar. ar \<leftarrow> Area d, l \<leftarrow> Lugar d, ar_lugarid ar = l,
          e \<leftarrow> Evento d, lugarid e = Some l, ar_areaid ar = areaID \<and> eventoid e = eventoID]"

text \<open>
  \<open>DELETE FROM Area WHERE areaID = $1\<close>: the seats of the area go with it
  (\<open>fk_asiento_area ... ON DELETE CASCADE\<close>).
\<close>

definition delete_area_row :: "int \<Rightarrow> db \<Rightarrow> db" where
  "delete_area_row areaID d =
     d\<lparr>Area := filter (\<lambda>ar. ar_areaid ar \<noteq> areaID) (Area d),
       Asiento := filter (\<lambda>a. areaid a \<noteq> areaID) (Asiento d)\<rparr>"

text \<open>The update of the layout document after the area is gone.\<close>

definition drop_tables :: "env \<Rightarrow> int \<Rightarrow> int \<Rightarrow> db \<Rightarrow> failure + db" where
  "drop_tables e eventoID areaID d =
     (if io_fails e Q_croquis_select then Inl IoError
      else case select_croquis d eventoID of
        [] \<Rightarrow> Inr d
      | r # rs \<Rightarrow>
        if \<not> truthy (configuracion r) then Inr d
        else (case getp (configuracion r) ''tables'' of Inl x \<Rightarrow> Inl x
          | Inr (JArr tables) \<Rightarrow>
              (case filter_tables areaID tables of Inl x \<Rightarrow> Inl x
               | Inr tables' \<Rightarrow>
                   if io_fails e Q_croquis_write then Inl IoError
                   else update_croquis (setp (configuracion r) ''tables'' (JArr tables')) eventoID d)
          | Inr other \<Rightarrow> Inr d))"

text \<open>
  The route; both path parameters are decimal integers, so \<open>parseInt\<close> gives them back.
  \<open>pool.connect()\<close> is awaited outside the \<open>try\<close>: when it fails, the route itself sends
  no response.
\<close>

definition delete_area :: "env \<Rightarrow> int \<Rightarrow> int \<Rightarrow> db \<Rightarrow> response \<times> db" where
  "delete_area e eventoID areaID d =
     (if eventoID \<le> 0 \<or> areaID \<le> 0 then (Status 400, d)
      else if io_fails e Q_connect then (Unhandled, d)
      else if io_fails e Q_begin \<or> io_fails e Q_event then (Status 500, d)
      else if filter (\<lambda>r. eventoid r = eventoID) (Evento d) = [] then (Status 404, d)
      else if io_fails e Q_area_check then (Status 500, d)
      else if area_check d areaID eventoID = [] then (Status 404, d)
      else if io_fails e Q_delete_area then (Status 500, d)
      else if filter (\<lambda>ar. ar_areaid ar = areaID) (Area d) = [] then (Status 404, d)
      else (case drop_tables e eventoID areaID (delete_area_row areaID d) of
        Inl x \<Rightarrow> (Status 500, d)
      | Inr d' \<Rightarrow>
        if io_fails e Q_commit then (Status 500, d)
        else if io_fails e Q_final_layout \<or> io_fails e Q_final_seats then (Status 500, d')
        else (Layout (select_layout d' eventoID (JObj [(''tables'', JArr [])]))
                     (select_seats d' eventoID), d')))"

section \<open>Notions used to state the properties\<close>

text \<open>The table entries the loop over \<open>configuracionCroquis.tables\<close> visits.\<close>

definition tables_of :: "jv \<Rightarrow> jv list" where
  "tables_of config =
     (if truthy config
      then (case getp config ''tables'' of Inr (JArr tables) \<Rightarrow> tables | _ \<Rightarrow> [])
      else [])"

text \<open>\<open>tempAreaId\<close> of a table entry.\<close>

definition temp_area_id :: "jv \<Rightarrow> jv" where
  "temp_area_id table = (case getp table ''areaid'' of Inr a \<Rightarrow> a | Inl x \<Rightarrow> JUndefined)"

text \<open>
  The entries detected as new, from index \<open>i\<close> on, in list order: the temporary area id
  of each with the key its insert is given.
\<close>

fun new_areas :: "env \<Rightarrow> nat \<Rightarrow> jv list \<Rightarrow> (jv \<times> int) list" where
  "new_areas e i [] = []"
| "new_areas e i (table # rest) =
     (if is_new_area table = Inr True
      then (temp_area_id table, area_serial e i) # new_areas e (Suc i) rest
      else new_areas e (Suc i) rest)"


definition assign_area :: "jv \<Rightarrow> int \<Rightarrow> jv" where
  "assign_area asiento r = setp (setp asiento ''areaID'' (JNum r)) ''areaid'' (JNum r)"


text \<open>
  The row the insert for a new table entry stores: the key, the venue, and the three
  values as the database reads the parameters.
\<close>

definition area_row_for :: "jv \<Rightarrow> int \<Rightarrow> int \<Rightarrow> area_row \<Rightarrow> bool" where
  "area_row_for table lugar r row =
     (ar_areaid row = r \<and> ar_lugarid row = lugar \<and>
      (\<exists>nombre ident capacidad tipo. getp table ''nombre'' = Inr nombre \<and> getp table ''id'' = Inr ident
               \<and> getp table ''capacidad'' = Inr capacidad \<and> getp table ''tipo'' = Inr tipo
               \<and> varchar 100 (area_prefix @ js_to_string (js_or nombre ident)) = Inr (ar_nombre row)
               \<and> pg_int4 (js_or capacidad (JNum 50)) = Inr (Some (ar_capacidad row))
               \<and> pg_enum tipo_area (js_or tipo (JStr ''GENERAL'')) = Inr (ar_tipo row)))"

text \<open>Two database states that differ in the seat table at most.\<close>

definition only_Asiento :: "db \<Rightarrow> db \<Rightarrow> bool" where
  "only_Asiento d d' = (Lugar d' = Lugar d \<and> Evento d' = Evento d \<and> Area d' = Area d \<and> Croquis d' = Croquis d)"

section \<open>Examples\<close>

text \<open>
  An environment in which no query fails, a database with two venues, an event in each,
  an area and a seat in each, and the request of the scenario: one new table with one new
  seat.
\<close>

definition env_ok :: env where
  "env_ok = \<lparr>io_fails = (\<lambda>q. False), area_serial = (\<lambda>i. 7 + int i),
             asiento_serial = (\<lambda>j. 20 + int j), croquis_serial = 3\<rparr>"

definition db_example :: db where
  "db_example =
     \<lparr>Lugar = [1, 2],
      Evento = [\<lparr>eventoid = 10, lugarid = Some 1\<rparr>, \<lparr>eventoid = 11, lugarid = Some 2\<rparr>],
      Area = [\<lparr>ar_areaid = 5, ar_nombre = ''Sala'', ar_capacidad = 10, ar_tipo = ''VIP'', ar_lugarid = 1\<rparr>,
              \<lparr>ar_areaid = 6, ar_nombre = ''Patio'', ar_capacidad = 10, ar_tipo = ''VIP'', ar_lugarid = 2\<rparr>],
      Asiento = [\<lparr>asientoid = 1, codigo = Some ''S1'', fila = None, columna = None,
                  estado = ''DISPONIBLE'', areaid = 5\<rparr>,
                 \<lparr>asientoid = 2, codigo = Some ''P1'', fila = None, columna = None,
                  estado = ''DISPONIBLE'', areaid = 6\<rparr>],
      Croquis = []\<rparr>"

definition mesa1 :: jv where
  "mesa1 = JObj [(''id'', JStr ''new-table-1''), (''areaid'', JNum 1111111111),
                 (''nombre'', JStr ''Mesa 1''), (''capacidad'', JNum 8), (''tipo'', JStr ''GENERAL'')]"

definition layout_example :: jv where
  "layout_example = JObj [(''tables'', JArr [mesa1])]"

definition seat_a1 :: jv where
  "seat_a1 = JObj [(''codigo'', JStr ''A1''), (''estado'', JStr ''disponible''),
                   (''areaID'', JNum 1111111111), (''isNew'', JBool True)]"

text \<open>What the scenario leaves behind: the layout and the seat list of the response, and the database.\<close>

definition layout_after :: jv where
  "layout_after =
     JObj [(''tables'', JArr [JObj [(''id'', JStr ''area-7''), (''areaid'', JNum 7),
             (''nombre'', JStr ''Mesa 1''), (''capacidad'', JNum 8), (''tipo'', JStr ''GENERAL'')]])]"

definition seats_after :: "asiento_row list" where
  "seats_after =
     [\<lparr>asientoid = 1, codigo = Some ''S1'', fila = None, columna = None,
       estado = ''DISPONIBLE'', areaid = 5\<rparr>,
      \<lparr>asientoid = 20, codigo = Some ''A1'', fila = None, columna = None,
       estado = ''DISPONIBLE'', areaid = 7\<rparr>]"

definition db_after :: db where
  "db_after =
     db_example\<lparr>
       Area := Area db_example @
         [\<lparr>ar_areaid = 7, ar_nombre = area_prefix @ ''Mesa 1'', ar_capacidad = 8,
           ar_tipo = ''GENERAL'', ar_lugarid = 1\<rparr>],
       Asiento := Asiento db_example @
         [\<lparr>asientoid = 20, codigo = Some ''A1'', fila = None, columna = None,
           estado = ''DISPONIBLE'', areaid = 7\<rparr>],
       Croquis := [\<lparr>croquisid = 3, cr_eventoid = 10, configuracion = layout_after\<rparr>]\<rparr>"



text \<open>
  More seat descriptors: a new seat for the existing area 5; the existing seat 1 named by
  a string; a client-side string id; a new seat for an area that does not exist; the
  existing seat 2, which belongs to the other venue.
\<close>

definition seat_new5 :: jv where
  "seat_new5 = JObj [(''codigo'', JStr ''S2''), (''estado'', JStr ''Reservado''), (''areaID'', JNum 5)]"

definition seat_str1 :: jv where
  "seat_str1 = JObj [(''asientoID'', JStr ''1''), (''codigo'', JStr ''S1''), (''estado'', JStr ''ocupado''),
                     (''areaID'', JNum 5)]"

definition seat_temp :: jv where
  "seat_temp = JObj [(''asientoID'', JStr ''temp-seat-1''), (''codigo'', JStr ''S3''),
                     (''estado'', JStr ''disponible''), (''areaID'', JNum 5)]"



text \<open>A request that only updates the state of seat 1: a layout without new entries.\<close>

definition layout_plain :: jv where
  "layout_plain = JObj [(''tables'', JArr [JObj [(''id'', JStr ''area-5''), (''areaid'', JNum 5),
                          (''nombre'', JStr ''Sala'')]])]"

definition seat_update1 :: jv where
  "seat_update1 = JObj [(''asientoID'', JNum 1), (''estado'', JStr ''ocupado'')]"

text \<open>
  A seat descriptor with a state outside the enumeration, and an environment in which
  the last query of the route, the read of the seat list after \<open>COMMIT\<close>, fails.
\<close>

definition seat_bad :: jv where
  "seat_bad = JObj [(''codigo'', JStr ''A2''), (''estado'', JStr ''roto''),
                    (''areaID'', JNum 1111111111), (''isNew'', JBool True)]"

definition env_late :: env where
  "env_late = env_ok\<lparr>io_fails := (\<lambda>q. q = Q_final_seats)\<rparr>"

section \<open>Auxiliary lemmas\<close>

subsection \<open>Properties of objects\<close>


lemma is_new_area_obj: "is_new_area table = Inr True \<Longrightarrow> \<exists>kvs. table = JObj kvs"
  by (cases table) (auto simp: is_new_area_def split: if_splits)

subsection \<open>The loop over the table entries\<close>

lemma create_area_Inr:
  assumes "create_area e lugar i table d = Inr (table', T, r, d')"
  shows "T = temp_area_id table"
    and "r = area_serial e i"
    and "table' = setp (setp table ''areaid'' (JNum r)) ''id'' (JStr (''area-'' @ show_int r))"
    and "\<exists>nom cap tip. d' = d\<lparr>Area := Area d @ [\<lparr>ar_areaid = r, ar_nombre = nom, ar_capacidad = cap, ar_tipo = tip, ar_lugarid = lugar\<rparr>]\<rparr>
         \<and> (\<exists>nombre ident capacidad tipo. getp table ''nombre'' = Inr nombre \<and> getp table ''id'' = Inr ident
               \<and> getp table ''capacidad'' = Inr capacidad \<and> getp table ''tipo'' = Inr tipo
               \<and> varchar 100 (area_prefix @ js_to_string (js_or nombre ident)) = Inr nom
               \<and> pg_int4 (js_or capacidad (JNum 50)) = Inr (Some cap)
               \<and> pg_enum tipo_area (js_or tipo (JStr ''GENERAL'')) = Inr tip)"
    and "r \<notin> set (map ar_areaid (Area d))"
  using assms
  by (auto simp: create_area_def insert_area_def temp_area_id_def split: sum.splits option.splits if_splits)








lemma create_area_row:
  assumes "create_area e lugar i table d = Inr (table', T, r, d')"
  shows "\<exists>row. d' = d\<lparr>Area := Area d @ [row]\<rparr> \<and> area_row_for table lugar (area_serial e i) row"
  using create_area_Inr(2,4) [OF assms] unfolding area_row_for_def
  by (metis area_row.select_convs(1,2,3,4,5))

lemma remap_tables_areas:
  assumes "remap_tables e lugar i tables asientos d = Inr (tables', asientos', d')"
  shows "\<exists>rows. d' = d\<lparr>Area := Area d @ rows\<rparr> \<and> map ar_areaid rows = map snd (new_areas e i tables)
          \<and> (\<forall>k < length tables. is_new_area (tables ! k) = Inr True \<longrightarrow>
                (\<exists>row \<in> set rows. area_row_for (tables ! k) lugar (area_serial e (i + k)) row))"
  using assms
proof (induction tables arbitrary: i asientos d tables')
  case Nil
  then show ?case by simp
next
  case (Cons t ts)
  show ?case
  proof (cases "is_new_area t = Inr True")
    case False
    with Cons.prems(1) obtain rest' where "remap_tables e lugar (Suc i) ts asientos d = Inr (rest', asientos', d')"
      by (auto split: sum.splits bool.splits)
    from Cons.IH [OF this] obtain rows where rows: "d' = d\<lparr>Area := Area d @ rows\<rparr>"
      "map ar_areaid rows = map snd (new_areas e (Suc i) ts)"
      "\<forall>k < length ts. is_new_area (ts ! k) = Inr True \<longrightarrow>
                (\<exists>row \<in> set rows. area_row_for (ts ! k) lugar (area_serial e (Suc i + k)) row)" by blast
    have "\<forall>k < length (t # ts). is_new_area ((t # ts) ! k) = Inr True \<longrightarrow>
                (\<exists>row \<in> set rows. area_row_for ((t # ts) ! k) lugar (area_serial e (i + k)) row)"
    proof (intro allI impI)
      fix k assume k: "k < length (t # ts)" "is_new_area ((t # ts) ! k) = Inr True"
      with False obtain k' where "k = Suc k'" by (cases k) auto
      with k rows(3) show "\<exists>row \<in> set rows. area_row_for ((t # ts) ! k) lugar (area_serial e (i + k)) row"
        by auto
    qed
    with rows(1,2) False show ?thesis by auto
  next
    case True
    with Cons.prems(1) obtain t' T r d1 asientos1 rest' where
      ca: "create_area e lugar i t d = Inr (t', T, r, d1)" and
      rt: "remap_tables e lugar (Suc i) ts asientos1 d1 = Inr (rest', asientos', d')"
      by (auto split: sum.splits)
    from create_area_row [OF ca] obtain row where row: "d1 = d\<lparr>Area := Area d @ [row]\<rparr>"
      "area_row_for t lugar (area_serial e i) row" by blast
    from Cons.IH [OF rt] obtain rows where rows: "d' = d1\<lparr>Area := Area d1 @ rows\<rparr>"
      "map ar_areaid rows = map snd (new_areas e (Suc i) ts)"
      "\<forall>k < length ts. is_new_area (ts ! k) = Inr True \<longrightarrow>
                (\<exists>row \<in> set rows. area_row_for (ts ! k) lugar (area_serial e (Suc i + k)) row)" by blast
    have 1: "d' = d\<lparr>Area := Area d @ (row # rows)\<rparr>" using row(1) rows(1) by simp
    have 2: "map ar_areaid (row # rows) = map snd (new_areas e i (t # ts))"
      using True rows(2) row(2) by (simp add: area_row_for_def)
    have 3: "\<forall>k < length (t # ts). is_new_area ((t # ts) ! k) = Inr True \<longrightarrow>
                (\<exists>x \<in> set (row # rows). area_row_for ((t # ts) ! k) lugar (area_serial e (i + k)) x)"
    proof (intro allI impI)
      fix k assume k: "k < length (t # ts)" "is_new_area ((t # ts) ! k) = Inr True"
      show "\<exists>x \<in> set (row # rows). area_row_for ((t # ts) ! k) lugar (area_serial e (i + k)) x"
      proof (cases k)
        case 0
        with row(2) show ?thesis by simp
      next
        case (Suc k')
        with k rows(3) show ?thesis by auto
      qed
    qed
    from 1 2 3 show ?thesis by blast
  qed
qed


subsection \<open>Seats and the layout document\<close>

lemma pg_enum_JStr: "pg_enum labels (JStr s) = Inr x \<longleftrightarrow> x = s \<and> s \<in> set labels"
  by (auto simp: pg_enum_def)

lemma insert_asiento_Inr:
  assumes "insert_asiento e j cod fil col est areaID d = Inr d'"
  shows "\<exists>row. d' = d\<lparr>Asiento := Asiento d @ [row]\<rparr> \<and> asientoid row = asiento_serial e j
           \<and> estado row = est \<and> est \<in> set estado_asiento
           \<and> pg_int4 areaID = Inr (Some (areaid row)) \<and> areaid row \<in> set (map ar_areaid (Area d))
           \<and> asiento_serial e j \<notin> set (map asientoid (Asiento d))"
  using assms
  by (auto simp: insert_asiento_def pg_enum_JStr split: sum.splits option.splits if_splits)

lemma update_asiento_Inr:
  assumes "update_asiento e j est sid d = Inr d'"
  shows "est \<in> set estado_asiento \<and>
         (\<exists>f. d' = d\<lparr>Asiento := map (\<lambda>a. if f a then a\<lparr>estado := est\<rparr> else a) (Asiento d)\<rparr>)"
proof -
  from assms have est: "est \<in> set estado_asiento"
    by (auto simp: update_asiento_def pg_enum_JStr split: sum.splits option.splits if_splits)
  from assms consider (null) "d' = d"
    | (upd) n where "d' = d\<lparr>Asiento := map (\<lambda>a. if asientoid a = n then a\<lparr>estado := est\<rparr> else a) (Asiento d)\<rparr>"
    by (auto simp: update_asiento_def pg_enum_JStr split: sum.splits option.splits if_splits)
  then have "\<exists>f. d' = d\<lparr>Asiento := map (\<lambda>a. if f a then a\<lparr>estado := est\<rparr> else a) (Asiento d)\<rparr>"
  proof cases
    case null
    then show ?thesis by (intro exI [of _ "\<lambda>a. False"]) simp
  next
    case upd
    then show ?thesis by (intro exI [of _ "\<lambda>a. asientoid a = n"])
  qed
  with est show ?thesis by simp
qed

lemma only_Asiento_refl: "only_Asiento d d"
  by (simp add: only_Asiento_def)

lemma only_Asiento_trans: "only_Asiento d d1 \<Longrightarrow> only_Asiento d1 d2 \<Longrightarrow> only_Asiento d d2"
  by (simp add: only_Asiento_def)

lemma process_seat_frame:
  assumes "process_seat e lugar j s d = Inr d'"
  shows "only_Asiento d d'"
proof -
  have 1: "\<And>cod fil col est a. insert_asiento e j cod fil col est a d = Inr d' \<Longrightarrow> only_Asiento d d'"
    by (auto dest!: insert_asiento_Inr simp: only_Asiento_def)
  have 2: "\<And>est sid. update_asiento e j est sid d = Inr d' \<Longrightarrow> only_Asiento d d'"
    by (auto dest!: update_asiento_Inr simp: only_Asiento_def)
  from assms show ?thesis
    unfolding process_seat_def
    by (auto split: sum.splits bool.splits if_splits list.splits intro: 1 2 only_Asiento_refl)
qed

lemma process_seats_frame:
  "process_seats e lugar j ss d = Inr d' \<Longrightarrow> only_Asiento d d'"
proof (induction ss arbitrary: j d)
  case Nil
  then show ?case by (auto intro: only_Asiento_refl)
next
  case (Cons s ss)
  then obtain d1 where 1: "process_seat e lugar j s d = Inr d1" and 2: "process_seats e lugar (Suc j) ss d1 = Inr d'"
    by (auto split: sum.splits)
  from process_seat_frame [OF 1] Cons.IH [OF 2] show ?case by (rule only_Asiento_trans)
qed

lemma update_croquis_Inr:
  assumes "update_croquis config eid d = Inr d'"
  shows "\<exists>c. pg_json config = Inr c \<and> d' = d\<lparr>Croquis := map (\<lambda>r. if cr_eventoid r = eid then r\<lparr>configuracion := c\<rparr> else r) (Croquis d)\<rparr>"
  using assms by (auto simp: update_croquis_def split: sum.splits)

lemma select_croquis_update:
  "select_croquis (d\<lparr>Croquis := map (\<lambda>r. if cr_eventoid r = eid then r\<lparr>configuracion := c\<rparr> else r) (Croquis d)\<rparr>) eid
     = map (\<lambda>r. r\<lparr>configuracion := c\<rparr>) (select_croquis d eid)"
  unfolding select_croquis_def by (induction "Croquis d" arbitrary: d) (auto simp: filter_map o_def intro: filter_cong)

lemma upsert_croquis_Inr:
  assumes "upsert_croquis e eid config d = Inr d'"
  shows "\<exists>rows. d' = d\<lparr>Croquis := rows\<rparr>"
    and "config = JUndefined \<Longrightarrow> d' = d"
    and "config \<noteq> JUndefined \<Longrightarrow> \<exists>c. pg_json config = Inr c \<and> select_layout d' eid dflt = c"
proof -
  show "\<exists>rows. d' = d\<lparr>Croquis := rows\<rparr>"
    using assms
    by (auto simp: upsert_croquis_def update_croquis_def insert_croquis_def split: if_splits sum.splits intro: exI [of _ "Croquis d"])
  show "config = JUndefined \<Longrightarrow> d' = d"
    using assms by (auto simp: upsert_croquis_def split: if_splits)
  assume ne: "config \<noteq> JUndefined"
  show "\<exists>c. pg_json config = Inr c \<and> select_layout d' eid dflt = c"
  proof (cases "select_croquis d eid")
    case Nil
    with assms ne show ?thesis
      by (auto simp: upsert_croquis_def insert_croquis_def select_layout_def select_croquis_def split: if_splits sum.splits)
  next
    case (Cons r rs)
    with assms ne have "update_croquis config eid d = Inr d'"
      by (auto simp: upsert_croquis_def split: if_splits)
    from update_croquis_Inr [OF this] Cons show ?thesis
      by (auto simp: select_layout_def select_croquis_update)
  qed
qed

lemma remap_config_Inr:
  assumes "remap_config e lugar config asientos d = Inr (config', asientos', d')"
  shows "\<exists>tables'. remap_tables e lugar 0 (tables_of config) asientos d = Inr (tables', asientos', d')
           \<and> tables_of config' = tables'
           \<and> (config' = config \<or> (\<exists>kvs. config = JObj kvs) \<and> config' = setp config ''tables'' (JArr tables'))"
proof (cases "truthy config \<and> (\<exists>ts. getp config ''tables'' = Inr (JArr ts))")
  case False
  then have "tables_of config = []"
    by (auto simp: tables_of_def split: sum.splits jv.splits)
  moreover from False assms have "config' = config \<and> asientos' = asientos \<and> d' = d"
    by (auto simp: remap_config_def split: if_splits sum.splits jv.splits)
  ultimately show ?thesis by simp
next
  case True
  then obtain ts where ts: "getp config ''tables'' = Inr (JArr ts)" and tr: "truthy config" by blast
  then obtain kvs where kvs: "config = JObj kvs" by (cases config) auto
  from ts tr have to: "tables_of config = ts" by (simp add: tables_of_def)
  from assms ts tr obtain tables' where rt: "remap_tables e lugar 0 ts asientos d = Inr (tables', asientos', d')"
    and c': "config' = setp config ''tables'' (JArr tables')"
    by (auto simp: remap_config_def split: sum.splits)
  from c' kvs have "tables_of config' = tables'"
    by (simp add: tables_of_def update_conv')
  with rt c' kvs to show ?thesis by auto
qed

lemma transaction_steps_Inr:
  assumes "transaction_steps e eid lugar config asientos d = Inr d'"
  shows "\<exists>config' asientos' d1 d2.
            remap_config e lugar config asientos d = Inr (config', asientos', d1)
          \<and> upsert_croquis e eid config' d1 = Inr d2
          \<and> process_seats e lugar 0 asientos' d2 = Inr d'"
  using assms by (auto simp: transaction_steps_def split: sum.splits)

lemma put_layout_Layout:
  assumes "put_layout e eid config asientos d = (Layout l s, d')"
  shows "\<exists>ev others lugar seats.
            filter (\<lambda>r. eventoid r = eid) (Evento d) = ev # others \<and> lugarid ev = Some lugar
          \<and> asientos = JArr seats
          \<and> (config = JUndefined \<or> (\<exists>kvs. config = JObj kvs) \<or> (\<exists>xs. config = JArr xs))
          \<and> transaction_steps e eid lugar config seats d = Inr d'
          \<and> l = select_layout d' eid JNull \<and> s = select_seats d' eid"
proof -
  from assms have "config = JUndefined \<or> (\<exists>kvs. config = JObj kvs) \<or> (\<exists>xs. config = JArr xs)"
    by (cases config) (auto simp: put_layout_def split: if_splits list.splits)
  with assms show ?thesis
    by (auto simp: put_layout_def split: if_splits list.splits jv.splits option.splits sum.splits)
qed

subsection \<open>The route as a whole\<close>




lemma put_layout_phases:
  assumes "put_layout e eventoID config asientos d = (Layout l s, d')"
  shows "\<exists>ev others lugar seats tables' asientos' config' d1 d2.
            filter (\<lambda>r. eventoid r = eventoID) (Evento d) = ev # others \<and> lugarid ev = Some lugar
          \<and> asientos = JArr seats
          \<and> remap_tables e lugar 0 (tables_of config) seats d = Inr (tables', asientos', d1)
          \<and> upsert_croquis e eventoID config' d1 = Inr d2
          \<and> process_seats e lugar 0 asientos' d2 = Inr d'
          \<and> (config' = config \<or> (\<exists>kvs. config = JObj kvs) \<and> config' = setp config ''tables'' (JArr tables'))
          \<and> (tables_of config \<noteq> [] \<longrightarrow> tables_of l = tables')
          \<and> (config \<noteq> JUndefined \<longrightarrow> pg_json config' = Inr l)
          \<and> Asiento d2 = Asiento d \<and> Area d' = Area d1 \<and> Croquis d' = Croquis d2
          \<and> Lugar d' = Lugar d \<and> Evento d' = Evento d
          \<and> l = select_layout d' eventoID JNull \<and> s = select_seats d' eventoID"
proof -
  from put_layout_Layout [OF assms(1)] obtain ev others lugar seats where
    ev: "filter (\<lambda>r. eventoid r = eventoID) (Evento d) = ev # others" "lugarid ev = Some lugar" and
    a: "asientos = JArr seats" and
    ts: "transaction_steps e eventoID lugar config seats d = Inr d'" and
    l: "l = select_layout d' eventoID JNull" and s: "s = select_seats d' eventoID" by blast
  from transaction_steps_Inr [OF ts] obtain config' asientos' d1 d2 where
    rc: "remap_config e lugar config seats d = Inr (config', asientos', d1)" and
    uc: "upsert_croquis e eventoID config' d1 = Inr d2" and
    ps: "process_seats e lugar 0 asientos' d2 = Inr d'"
    by blast
  from remap_config_Inr [OF rc] obtain tables' where
    rt: "remap_tables e lugar 0 (tables_of config) seats d = Inr (tables', asientos', d1)" and
    tc: "tables_of config' = tables'" and
    c': "config' = config \<or> (\<exists>kvs. config = JObj kvs) \<and> config' = setp config ''tables'' (JArr tables')"
    by blast
  from remap_tables_areas [OF rt] obtain rows where d1: "d1 = d\<lparr>Area := Area d @ rows\<rparr>" by blast
  from upsert_croquis_Inr(1) [OF uc] process_seats_frame [OF ps] d1
  have fr: "Asiento d2 = Asiento d" "Area d' = Area d1" "Croquis d' = Croquis d2"
    "Lugar d' = Lugar d" "Evento d' = Evento d"
    by (auto simp: only_Asiento_def)
  have sl: "select_layout d' eventoID JNull = select_layout d2 eventoID JNull"
    using fr(3) by (simp add: select_layout_def select_croquis_def)
  have 1: "config \<noteq> JUndefined \<longrightarrow> pg_json config' = Inr l"
  proof
    assume "config \<noteq> JUndefined"
    with c' have "config' \<noteq> JUndefined" by auto
    from upsert_croquis_Inr(3) [OF uc this, of JNull] sl l show "pg_json config' = Inr l" by auto
  qed
  have 2: "tables_of config \<noteq> [] \<longrightarrow> tables_of l = tables'"
  proof
    assume ne: "tables_of config \<noteq> []"
    then obtain kvs where "config = JObj kvs"
      by (cases config) (auto simp: tables_of_def split: if_splits)
    with c' obtain kvs' where kvs': "config' = JObj kvs'" by auto
    from ne have "config \<noteq> JUndefined" by (auto simp: tables_of_def)
    with 1 kvs' have "l = config'" by simp
    with tc show "tables_of l = tables'" by simp
  qed
  from ev a rt uc ps c' 1 2 fr l s show ?thesis by blast
qed

lemma put_layout_cases:
  assumes "put_layout e eventoID config asientos d = (r, d')"
  shows "d' = d \<and> (\<forall>l s. r \<noteq> Layout l s) \<or>
         (\<exists>ev others lugar seats. filter (\<lambda>r. eventoid r = eventoID) (Evento d) = ev # others
            \<and> lugarid ev = Some lugar \<and> asientos = JArr seats
            \<and> transaction_steps e eventoID lugar config seats d = Inr d' \<and> \<not> io_fails e Q_commit)"
  using assms
  by (auto simp: put_layout_def split: if_splits list.splits jv.splits option.splits sum.splits)


lemma process_seat_rows:
  assumes "process_seat e lugar j s d = Inr d'"
  shows "only_Asiento d d'"
    and "d' = d \<or>
         (\<exists>st. estado_upper s = Inr st \<and> st \<in> set estado_asiento \<and>
            (isNewSeat s = Inr True \<and> (\<exists>row. Asiento d' = Asiento d @ [row] \<and> estado row = st
                 \<and> asientoid row = asiento_serial e j)
             \<or> isNewSeat s = Inr False \<and>
               (\<exists>f. Asiento d' = map (\<lambda>a. if f a then a\<lparr>estado := st\<rparr> else a) (Asiento d))))"
proof -
  show "only_Asiento d d'" using assms by (rule process_seat_frame)
  show "d' = d \<or>
         (\<exists>st. estado_upper s = Inr st \<and> st \<in> set estado_asiento \<and>
            (isNewSeat s = Inr True \<and> (\<exists>row. Asiento d' = Asiento d @ [row] \<and> estado row = st
                 \<and> asientoid row = asiento_serial e j)
             \<or> isNewSeat s = Inr False \<and>
               (\<exists>f. Asiento d' = map (\<lambda>a. if f a then a\<lparr>estado := st\<rparr> else a) (Asiento d))))"
  proof (cases "isNewSeat s = Inr True")
    case True
    with assms have "d' = d \<or> (\<exists>cod fil col st a. estado_upper s = Inr st \<and> insert_asiento e j cod fil col st a d = Inr d')"
      by (auto simp: process_seat_def split: sum.splits if_splits)
    then show ?thesis
    proof
      assume "d' = d" then show ?thesis by simp
    next
      assume "\<exists>cod fil col st a. estado_upper s = Inr st \<and> insert_asiento e j cod fil col st a d = Inr d'"
      then obtain cod fil col st a where st: "estado_upper s = Inr st"
        and ins: "insert_asiento e j cod fil col st a d = Inr d'" by blast
      from insert_asiento_Inr [OF ins] obtain row where
        "d' = d\<lparr>Asiento := Asiento d @ [row]\<rparr>" "asientoid row = asiento_serial e j"
        "estado row = st" "st \<in> set estado_asiento" by blast
      with st True show ?thesis by auto
    qed
  next
    case False
    with assms have nf: "isNewSeat s = Inr False"
      by (auto simp: process_seat_def split: sum.splits bool.splits)
    with assms have "d' = d \<or> (\<exists>st sid. estado_upper s = Inr st \<and> update_asiento e j st sid d = Inr d')"
      by (auto simp: process_seat_def split: sum.splits if_splits list.splits)
    then show ?thesis
    proof
      assume "d' = d" then show ?thesis by simp
    next
      assume "\<exists>st sid. estado_upper s = Inr st \<and> update_asiento e j st sid d = Inr d'"
      then obtain st sid where st: "estado_upper s = Inr st"
        and upd: "update_asiento e j st sid d = Inr d'" by blast
      from update_asiento_Inr [OF upd] obtain f where
        "st \<in> set estado_asiento"
        "d' = d\<lparr>Asiento := map (\<lambda>a. if f a then a\<lparr>estado := st\<rparr> else a) (Asiento d)\<rparr>" by blast
      then have "st \<in> set estado_asiento"
        "Asiento d' = map (\<lambda>a. if f a then a\<lparr>estado := st\<rparr> else a) (Asiento d)" by simp_all
      with st nf show ?thesis by blast
    qed
  qed
qed





lemma remap_tables_no_new:
  assumes "\<forall>table \<in> set tables. is_new_area table \<noteq> Inr True"
      and "remap_tables e lugar i tables asientos d = Inr (tables', asientos', d')"
  shows "tables' = tables \<and> asientos' = asientos \<and> d' = d"
  using assms
proof (induction tables arbitrary: i tables')
  case Nil
  then show ?case by simp
next
  case (Cons t ts)
  from Cons.prems obtain rest' where "remap_tables e lugar (Suc i) ts asientos d = Inr (rest', asientos', d')"
    "tables' = t # rest'"
    by (auto split: sum.splits bool.splits)
  with Cons.IH [of "Suc i" rest'] Cons.prems(1) show ?case by simp
qed

lemma process_seats_no_new:
  assumes "\<forall>asiento \<in> set ss. isNewSeat asiento \<noteq> Inr True"
      and "process_seats e lugar j ss d = Inr d'"
  shows "map (\<lambda>a. a\<lparr>estado := []\<rparr>) (Asiento d') = map (\<lambda>a. a\<lparr>estado := []\<rparr>) (Asiento d)"
  using assms
proof (induction ss arbitrary: j d)
  case Nil
  then show ?case by simp
next
  case (Cons s ss)
  then obtain d1 where 1: "process_seat e lugar j s d = Inr d1"
    and 2: "process_seats e lugar (Suc j) ss d1 = Inr d'"
    by (auto split: sum.splits)
  from Cons.prems(1) have s: "isNewSeat s \<noteq> Inr True" by simp
  from process_seat_rows(2) [OF 1] s
  have "map (\<lambda>a. a\<lparr>estado := []\<rparr>) (Asiento d1) = map (\<lambda>a. a\<lparr>estado := []\<rparr>) (Asiento d)"
    by auto
  moreover from Cons.IH [OF _ 2] Cons.prems(1)
  have "map (\<lambda>a. a\<lparr>estado := []\<rparr>) (Asiento d') = map (\<lambda>a. a\<lparr>estado := []\<rparr>) (Asiento d1)"
    by simp
  ultimately show ?case by simp
qed

subsection \<open>The two seat lists\<close>

lemma concat_map_if_eq:
  "distinct ls \<Longrightarrow> concat (map (\<lambda>l. if v = l then f l else []) ls) = (if v \<in> set ls then f v else [])"
  by (induction ls) auto

lemma concat_map_no_event:
  assumes "\<forall>ev \<in> set evs. \<forall>v. lugarid ev = Some v \<longrightarrow> v \<in> set ls" and "v \<notin> set ls"
  shows "concat (map (\<lambda>e. if lugarid e = Some v then g e else []) evs) = []"
  using assms by (induction evs) auto

lemma join_via_lugar:
  assumes "distinct ls"
      and "\<forall>ev \<in> set evs. \<forall>v. lugarid ev = Some v \<longrightarrow> v \<in> set ls"
  shows "concat (map (\<lambda>l. if v = l
                        then concat (map (\<lambda>e. if lugarid e = Some l then g e else []) evs)
                        else []) ls)
       = concat (map (\<lambda>e. if lugarid e = Some v then g e else []) evs)"
proof -
  let ?F = "\<lambda>l. concat (map (\<lambda>e. if lugarid e = Some l then g e else []) evs)"
  have "concat (map (\<lambda>l. if v = l then ?F l else []) ls) = (if v \<in> set ls then ?F v else [])"
    using assms(1) by (rule concat_map_if_eq)
  also have "\<dots> = ?F v"
  proof (cases "v \<in> set ls")
    case True
    then show ?thesis by (simp only: if_True)
  next
    case False
    from concat_map_no_event [OF assms(2) False] have "?F v = []" .
    with False show ?thesis by (simp only: if_False)
  qed
  finally show ?thesis .
qed

lemma select_seats_via_lugar_eq:
  assumes "distinct (Lugar d)"
      and "\<forall>ev \<in> set (Evento d). \<forall>v. lugarid ev = Some v \<longrightarrow> v \<in> set (Lugar d)"
  shows "select_seats_via_lugar d eventoID = select_seats d eventoID"
proof -
  have inner: "concat (map (\<lambda>l. if v = l
                        then concat (map (\<lambda>e. if lugarid e = Some l
                                                then (if eventoid e = eventoID then [a] else []) else [])
                                         (Evento d))
                        else []) (Lugar d))
       = concat (map (\<lambda>e. if lugarid e = Some v
                           then (if eventoid e = eventoID then [a] else []) else []) (Evento d))"
    for v and a :: asiento_row
    by (rule join_via_lugar [OF assms])
  have "[a. a \<leftarrow> Asiento d, ar \<leftarrow> Area d, areaid a = ar_areaid ar,
           l \<leftarrow> Lugar d, ar_lugarid ar = l,
           e \<leftarrow> Evento d, lugarid e = Some l, eventoid e = eventoID]
      = [a. a \<leftarrow> Asiento d, ar \<leftarrow> Area d, areaid a = ar_areaid ar,
           e \<leftarrow> Evento d, lugarid e = Some (ar_lugarid ar), eventoid e = eventoID]"
    apply (rule arg_cong [where f = concat])
    apply (rule map_cong [OF refl])
    apply (rule arg_cong [where f = concat])
    apply (rule map_cong [OF refl])
    apply (subst inner)
    apply (rule refl)
    done
  then show ?thesis
    unfolding select_seats_via_lugar_def select_seats_def by (rule arg_cong)
qed

subsection \<open>Deleting an area\<close>

lemma strict_eq_JNum_right: "strict_eq a (JNum n) = (a = JNum n)"
  by (cases a) auto

lemma filter_tables_Inr:
  "JNull \<notin> set tables \<Longrightarrow> JUndefined \<notin> set tables \<Longrightarrow>
     filter_tables areaID tables = Inr (filter (\<lambda>t. getp t ''areaid'' \<noteq> Inr (JNum areaID)) tables)"
proof (induction tables)
  case Nil
  then show ?case by simp
next
  case (Cons t ts)
  then obtain a where "getp t ''areaid'' = Inr a" by (cases t) auto
  with Cons show ?case by (simp add: strict_eq_JNum_right)
qed

lemma getp_truthy: "truthy v \<Longrightarrow> getp v k \<noteq> Inl x"
  by (cases v) auto

lemma select_layout_update:
  "select_croquis d eventoID = r # rs \<Longrightarrow> update_croquis (JObj kvs) eventoID d = Inr d' \<Longrightarrow>
     select_layout d' eventoID dflt = JObj kvs"
  by (auto simp: select_layout_def select_croquis_update dest!: update_croquis_Inr)

lemma remap_tables_not_null:
  assumes "remap_tables e lugar i tables asientos d = Inr (tables', asientos', d')"
  shows "JNull \<notin> set tables' \<and> JUndefined \<notin> set tables'"
  using assms
proof (induction tables arbitrary: i asientos d tables')
  case Nil
  then show ?case by simp
next
  case (Cons t ts)
  show ?case
  proof (cases "is_new_area t = Inr True")
    case False
    with Cons.prems(1) obtain rest' where rt: "remap_tables e lugar (Suc i) ts asientos d = Inr (rest', asientos', d')"
      and t': "tables' = t # rest'" and f: "is_new_area t = Inr False"
      by (auto split: sum.splits bool.splits)
    from f have "t \<noteq> JNull \<and> t \<noteq> JUndefined" by (auto simp: is_new_area_def)
    with Cons.IH [OF rt] t' show ?thesis by auto
  next
    case True
    with Cons.prems(1) obtain t' T r d1 asientos1 rest' where
      ca: "create_area e lugar i t d = Inr (t', T, r, d1)" and
      rt: "remap_tables e lugar (Suc i) ts asientos1 d1 = Inr (rest', asientos', d')"
      and t': "tables' = t' # rest'"
      by (auto split: sum.splits)
    from is_new_area_obj [OF True] create_area_Inr(3) [OF ca]
    have "t' \<noteq> JNull \<and> t' \<noteq> JUndefined" by auto
    with Cons.IH [OF rt] t' show ?thesis by auto
  qed
qed

text \<open>The write route never stores a table list with a null entry.\<close>

lemma put_layout_no_null_tables:
  assumes "put_layout e eventoID config asientos d = (Layout l s, d')"
      and "config \<noteq> JUndefined"
  shows "JNull \<notin> set (tables_of l) \<and> JUndefined \<notin> set (tables_of l)"
proof -
  from put_layout_phases [OF assms(1)] obtain lugar seats tables' asientos' config' d1 where
    rt: "remap_tables e lugar 0 (tables_of config) seats d = Inr (tables', asientos', d1)" and
    c': "config' = config \<or> (\<exists>kvs. config = JObj kvs) \<and> config' = setp config ''tables'' (JArr tables')" and
    tl: "tables_of config \<noteq> [] \<longrightarrow> tables_of l = tables'" and
    pj: "config \<noteq> JUndefined \<longrightarrow> pg_json config' = Inr l"
    by blast
  show ?thesis
  proof (cases "tables_of config = []")
    case False
    with tl remap_tables_not_null [OF rt] show ?thesis by simp
  next
    case True
    with rt have "tables' = []" by simp
    from pj assms(2) have l: "pg_json config' = Inr l" by simp
    from c' have "tables_of config' = []"
    proof
      assume "config' = config" with True show ?thesis by simp
    next
      assume "(\<exists>kvs. config = JObj kvs) \<and> config' = setp config ''tables'' (JArr tables')"
      with \<open>tables' = []\<close> show ?thesis by (auto simp: tables_of_def update_conv')
    qed
    moreover from l have "l = config' \<or> l = JObj []"
      by (cases config' rule: pg_json.cases) auto
    ultimately have "tables_of l = []" by (auto simp: tables_of_def)
    then show ?thesis by simp
  qed
qed

subsection \<open>The examples, evaluated\<close>

lemma example_put:
  "put_layout env_ok 10 layout_example (JArr [seat_a1]) db_example =
     (Layout layout_after seats_after, db_after)"
  by code_simp




section \<open>Properties of the routes\<close>

subsection \<open>New areas\<close>



subsection \<open>Temporary area identifiers\<close>




subsection \<open>Seat states\<close>



subsection \<open>Which seat descriptors are new\<close>

text \<open>
  C4, as amended. A seat descriptor whose \<open>asientoID\<close> is absent, or a number above
  1000000000, or whose \<open>isNew\<close> is truthy, takes the branch for new seats. When that step
  succeeds, either the \<open>areaID\<close> is missing or does not parse to a positive integer and
  nothing changes, or exactly one row is appended to the seat table, with the next key
  and the area the descriptor names; no existing row is changed.
\<close>

theorem new_seat_descriptor:
  assumes "getp asiento ''asientoID'' = Inr sid"
      and "sid = JUndefined \<or> (\<exists>n. sid = JNum n \<and> 1000000000 < n)
           \<or> (\<exists>m. getp asiento ''isNew'' = Inr m \<and> truthy m)"
      and "process_seat e lugar j asiento d = Inr d'"
  shows "isNewSeat asiento = Inr True \<and>
         (\<exists>areaID. getp asiento ''areaID'' = Inr areaID \<and>
            (if invalid_areaID areaID then d' = d
             else \<exists>row. d' = d\<lparr>Asiento := Asiento d @ [row]\<rparr> \<and> asientoid row = asiento_serial e j
                    \<and> pg_int4 areaID = Inr (Some (areaid row))))"
proof -
  from assms(1,2) have new: "isNewSeat asiento = Inr True"
    by (auto simp: isNewSeat_def)
  from assms(1) obtain areaID where a: "getp asiento ''areaID'' = Inr areaID"
    by (cases asiento) auto
  show ?thesis
  proof (cases "invalid_areaID areaID")
    case True
    with assms(3) new a show ?thesis by (simp add: process_seat_def)
  next
    case False
    with assms(3) new a obtain cod fil col st where
      "insert_asiento e j cod fil col st areaID d = Inr d'"
      by (auto simp: process_seat_def split: sum.splits)
    from insert_asiento_Inr [OF this] False new a show ?thesis by auto
  qed
qed

theorem new_seat_descriptor_witness:
  "getp seat_new5 ''asientoID'' = Inr JUndefined
   \<and> process_seat env_ok 1 0 seat_new5 db_example =
       Inr (db_example\<lparr>Asiento := Asiento db_example @
              [\<lparr>asientoid = 20, codigo = Some ''S2'', fila = None, columna = None,
                estado = ''RESERVADO'', areaid = 5\<rparr>]\<rparr>)
   \<and> isNewSeat seat_new5 = Inr True
   \<and> getp seat_new5 ''areaID'' = Inr (JNum 5) \<and> \<not> invalid_areaID (JNum 5)"
proof -
  have 1: "getp seat_new5 ''asientoID'' = Inr JUndefined" by code_simp
  have 2: "process_seat env_ok 1 0 seat_new5 db_example =
       Inr (db_example\<lparr>Asiento := Asiento db_example @
              [\<lparr>asientoid = 20, codigo = Some ''S2'', fila = None, columna = None,
                estado = ''RESERVADO'', areaid = 5\<rparr>]\<rparr>)" by code_simp
  have 3: "getp seat_new5 ''areaID'' = Inr (JNum 5)" "\<not> invalid_areaID (JNum 5)" by code_simp+
  from new_seat_descriptor [OF 1 _ 2] have "isNewSeat seat_new5 = Inr True" by simp
  with 1 2 3 show ?thesis by simp
qed

text \<open>
  The claim as stated fails for a string identifier: the descriptor is not taken as new.
  A string that reads as the key of a seat of the venue updates that seat; any other
  string makes the lookup fail, and the request is rolled back. No seat row is created
  in either case.
\<close>

theorem string_seat_id_counterexample:
  "isNewSeat seat_str1 = Inr False
   \<and> put_layout env_ok 10 JUndefined (JArr [seat_str1]) db_example =
       (Layout JNull
          [\<lparr>asientoid = 1, codigo = Some ''S1'', fila = None, columna = None,
            estado = ''OCUPADO'', areaid = 5\<rparr>],
        db_example\<lparr>Asiento :=
          [\<lparr>asientoid = 1, codigo = Some ''S1'', fila = None, columna = None,
            estado = ''OCUPADO'', areaid = 5\<rparr>,
           \<lparr>asientoid = 2, codigo = Some ''P1'', fila = None, columna = None,
            estado = ''DISPONIBLE'', areaid = 6\<rparr>]\<rparr>)
   \<and> isNewSeat seat_temp = Inr False
   \<and> put_layout env_ok 10 JUndefined (JArr [seat_temp]) db_example = (Status 500, db_example)"
  by code_simp

subsection \<open>Seat descriptors that are skipped\<close>




subsection \<open>Requests without temporary identifiers\<close>

text \<open>
  C8. When no table entry of the submitted layout is found new and no seat descriptor is
  taken as new, then whatever the route answers, the Area table is as before and the seat
  table has the same rows as before up to their states: no row is added.
\<close>

theorem no_temporaries_no_new_rows:
  assumes "\<forall>table \<in> set (tables_of config). is_new_area table \<noteq> Inr True"
      and "\<forall>asiento \<in> set asientos. isNewSeat asiento \<noteq> Inr True"
      and "put_layout e eventoID config (JArr asientos) d = (r, d')"
  shows "Area d' = Area d
       \<and> map (\<lambda>a. a\<lparr>estado := []\<rparr>) (Asiento d') = map (\<lambda>a. a\<lparr>estado := []\<rparr>) (Asiento d)
       \<and> length (Asiento d') = length (Asiento d)"
proof -
  have "Area d' = Area d
       \<and> map (\<lambda>a. a\<lparr>estado := []\<rparr>) (Asiento d') = map (\<lambda>a. a\<lparr>estado := []\<rparr>) (Asiento d)"
    using put_layout_cases [OF assms(3)]
  proof
    assume "d' = d \<and> (\<forall>l s. r \<noteq> Layout l s)"
    then show ?thesis by simp
  next
    assume "\<exists>ev others lugar seats. filter (\<lambda>r. eventoid r = eventoID) (Evento d) = ev # others
            \<and> lugarid ev = Some lugar \<and> JArr asientos = JArr seats
            \<and> transaction_steps e eventoID lugar config seats d = Inr d' \<and> \<not> io_fails e Q_commit"
    then obtain lugar where ts: "transaction_steps e eventoID lugar config asientos d = Inr d'"
      by auto
    from transaction_steps_Inr [OF ts] obtain config' asientos' d1 d2 where
      rc: "remap_config e lugar config asientos d = Inr (config', asientos', d1)" and
      uc: "upsert_croquis e eventoID config' d1 = Inr d2" and
      ps: "process_seats e lugar 0 asientos' d2 = Inr d'"
      by blast
    from remap_config_Inr [OF rc] obtain tables' where
      rt: "remap_tables e lugar 0 (tables_of config) asientos d = Inr (tables', asientos', d1)"
      by blast
    from remap_tables_no_new [OF assms(1) rt] have same: "asientos' = asientos" "d1 = d" by simp_all
    from upsert_croquis_Inr(1) [OF uc] same have d2: "Area d2 = Area d" "Asiento d2 = Asiento d" by auto
    from process_seats_frame [OF ps] d2 have "Area d' = Area d" by (simp add: only_Asiento_def)
    moreover from process_seats_no_new [OF _ ps] assms(2) same d2
    have "map (\<lambda>a. a\<lparr>estado := []\<rparr>) (Asiento d') = map (\<lambda>a. a\<lparr>estado := []\<rparr>) (Asiento d)" by simp
    ultimately show ?thesis by simp
  qed
  moreover from this have "length (Asiento d') = length (Asiento d)"
    by (metis length_map)
  ultimately show ?thesis by simp
qed

theorem no_temporaries_no_new_rows_witness:
  "tables_of layout_plain = [JObj [(''id'', JStr ''area-5''), (''areaid'', JNum 5), (''nombre'', JStr ''Sala'')]]
   \<and> is_new_area (JObj [(''id'', JStr ''area-5''), (''areaid'', JNum 5), (''nombre'', JStr ''Sala'')]) = Inr False
   \<and> isNewSeat seat_update1 = Inr False
   \<and> put_layout env_ok 10 layout_plain (JArr [seat_update1]) db_example =
       (Layout layout_plain
          [\<lparr>asientoid = 1, codigo = Some ''S1'', fila = None, columna = None,
            estado = ''OCUPADO'', areaid = 5\<rparr>],
        db_example\<lparr>Asiento :=
            [\<lparr>asientoid = 1, codigo = Some ''S1'', fila = None, columna = None,
              estado = ''OCUPADO'', areaid = 5\<rparr>,
             \<lparr>asientoid = 2, codigo = Some ''P1'', fila = None, columna = None,
              estado = ''DISPONIBLE'', areaid = 6\<rparr>],
          Croquis := [\<lparr>croquisid = 3, cr_eventoid = 10, configuracion = layout_plain\<rparr>]\<rparr>)
   \<and> Area (snd (put_layout env_ok 10 layout_plain (JArr [seat_update1]) db_example)) = Area db_example
   \<and> length (Asiento (snd (put_layout env_ok 10 layout_plain (JArr [seat_update1]) db_example))) = 2"
proof -
  have t: "tables_of layout_plain = [JObj [(''id'', JStr ''area-5''), (''areaid'', JNum 5), (''nombre'', JStr ''Sala'')]]"
    and n: "is_new_area (JObj [(''id'', JStr ''area-5''), (''areaid'', JNum 5), (''nombre'', JStr ''Sala'')]) = Inr False"
    and s: "isNewSeat seat_update1 = Inr False"
    by code_simp+
  have p: "put_layout env_ok 10 layout_plain (JArr [seat_update1]) db_example =
       (Layout layout_plain
          [\<lparr>asientoid = 1, codigo = Some ''S1'', fila = None, columna = None,
            estado = ''OCUPADO'', areaid = 5\<rparr>],
        db_example\<lparr>Asiento :=
            [\<lparr>asientoid = 1, codigo = Some ''S1'', fila = None, columna = None,
              estado = ''OCUPADO'', areaid = 5\<rparr>,
             \<lparr>asientoid = 2, codigo = Some ''P1'', fila = None, columna = None,
              estado = ''DISPONIBLE'', areaid = 6\<rparr>],
          Croquis := [\<lparr>croquisid = 3, cr_eventoid = 10, configuracion = layout_plain\<rparr>]\<rparr>)"
    by code_simp
  have l: "length (Asiento db_example) = 2" by code_simp
  have h1: "\<forall>table \<in> set (tables_of layout_plain). is_new_area table \<noteq> Inr True"
    using t n by simp
  have h2: "\<forall>asiento \<in> set [seat_update1]. isNewSeat asiento \<noteq> Inr True"
    using s by simp
  from no_temporaries_no_new_rows [OF h1 h2 p] l
  have "Area (snd (put_layout env_ok 10 layout_plain (JArr [seat_update1]) db_example)) = Area db_example"
    "length (Asiento (snd (put_layout env_ok 10 layout_plain (JArr [seat_update1]) db_example))) = 2"
    unfolding p snd_conv by simp_all
  with t n s p show ?thesis by simp
qed

subsection \<open>Failures and the transaction\<close>

text \<open>
  C2. When the lookup of the event fails, or the event is found and the connection,
  \<open>BEGIN\<close>, the venue of the event or any step between \<open>BEGIN\<close> and \<open>COMMIT\<close> fails (the
  new areas, the layout document, the seats), the answer is the internal error and the
  database is the one the request started from.
\<close>

theorem rollback_on_failure:
  assumes "config = JUndefined \<or> typeof_object config \<and> config \<noteq> JNull"
      and "io_fails e Q_event \<or>
           filter (\<lambda>r. eventoid r = eventoID) (Evento d) = ev # others \<and>
             (io_fails e Q_connect \<or> io_fails e Q_begin \<or> lugarid ev = None \<or>
              (\<exists>lugar x. lugarid ev = Some lugar \<and>
                 transaction_steps e eventoID lugar config asientos d = Inl x))"
  shows "put_layout e eventoID config (JArr asientos) d = (Status 500, d)"
  using assms
  by (auto simp: put_layout_def)

theorem rollback_on_failure_witness:
  "typeof_object layout_example \<and> layout_example \<noteq> JNull
   \<and> filter (\<lambda>r. eventoid r = 10) (Evento db_example) = [\<lparr>eventoid = 10, lugarid = Some 1\<rparr>]
   \<and> (\<exists>config' asientos' d1. remap_config env_ok 1 layout_example [seat_a1, seat_bad] db_example
          = Inr (config', asientos', d1) \<and> length (Area d1) = 3 \<and> length (Area db_example) = 2)
   \<and> transaction_steps env_ok 10 1 layout_example [seat_a1, seat_bad] db_example = Inl DbError
   \<and> put_layout env_ok 10 layout_example (JArr [seat_a1, seat_bad]) db_example = (Status 500, db_example)"
proof -
  have 1: "typeof_object layout_example \<and> layout_example \<noteq> JNull" by code_simp
  have 2: "filter (\<lambda>r. eventoid r = 10) (Evento db_example) = [\<lparr>eventoid = 10, lugarid = Some 1\<rparr>]"
    by code_simp
  have 3: "transaction_steps env_ok 10 1 layout_example [seat_a1, seat_bad] db_example = Inl DbError"
    by code_simp
  have "remap_config env_ok 1 layout_example [seat_a1, seat_bad] db_example =
      Inr (layout_after,
           [assign_area seat_a1 7, assign_area seat_bad 7],
           db_example\<lparr>Area := Area db_example @
              [\<lparr>ar_areaid = 7, ar_nombre = area_prefix @ ''Mesa 1'', ar_capacidad = 8,
                ar_tipo = ''GENERAL'', ar_lugarid = 1\<rparr>]\<rparr>)"
    by code_simp
  moreover have "length (Area db_example) = 2" by code_simp
  ultimately have 4: "\<exists>config' asientos' d1. remap_config env_ok 1 layout_example [seat_a1, seat_bad] db_example
          = Inr (config', asientos', d1) \<and> length (Area d1) = 3 \<and> length (Area db_example) = 2"
    by simp
  from 1 2 3 have "put_layout env_ok 10 layout_example (JArr [seat_a1, seat_bad]) db_example = (Status 500, db_example)"
    by (intro rollback_on_failure [where ev = "\<lparr>eventoid = 10, lugarid = Some 1\<rparr>" and others = "[]"]) auto
  with 1 2 3 4 show ?thesis by simp
qed

text \<open>
  C9. The two reads for the response run after \<open>COMMIT\<close>. When everything up to and
  including \<open>COMMIT\<close> succeeds and one of these reads fails, the answer is the internal
  error and the database is the one the transaction produced.
\<close>

theorem failure_after_commit:
  assumes "filter (\<lambda>r. eventoid r = eventoID) (Evento d) = ev # others"
      and "lugarid ev = Some lugar"
      and "config = JUndefined \<or> typeof_object config \<and> config \<noteq> JNull"
      and "\<not> io_fails e Q_event \<and> \<not> io_fails e Q_connect \<and> \<not> io_fails e Q_begin \<and> \<not> io_fails e Q_commit"
      and "transaction_steps e eventoID lugar config asientos d = Inr d'"
      and "io_fails e Q_final_layout \<or> io_fails e Q_final_seats"
  shows "put_layout e eventoID config (JArr asientos) d = (Status 500, d')"
  using assms
  by (auto simp: put_layout_def)

theorem failure_after_commit_witness:
  "io_fails env_late Q_final_seats
   \<and> transaction_steps env_late 10 1 layout_example [seat_a1] db_example = Inr db_after
   \<and> put_layout env_late 10 layout_example (JArr [seat_a1]) db_example = (Status 500, db_after)
   \<and> db_after \<noteq> db_example
   \<and> Area db_after = Area db_example @
       [\<lparr>ar_areaid = 7, ar_nombre = area_prefix @ ''Mesa 1'', ar_capacidad = 8,
         ar_tipo = ''GENERAL'', ar_lugarid = 1\<rparr>]"
proof -
  have 1: "filter (\<lambda>r. eventoid r = 10) (Evento db_example) = [\<lparr>eventoid = 10, lugarid = Some 1\<rparr>]"
    "typeof_object layout_example \<and> layout_example \<noteq> JNull"
    "\<not> io_fails env_late Q_event \<and> \<not> io_fails env_late Q_connect \<and> \<not> io_fails env_late Q_begin \<and> \<not> io_fails env_late Q_commit"
    by code_simp+
  have 2: "transaction_steps env_late 10 1 layout_example [seat_a1] db_example = Inr db_after"
    by code_simp
  have 3: "io_fails env_late Q_final_seats" by code_simp
  have 4: "Area db_after = Area db_example @
       [\<lparr>ar_areaid = 7, ar_nombre = area_prefix @ ''Mesa 1'', ar_capacidad = 8,
         ar_tipo = ''GENERAL'', ar_lugarid = 1\<rparr>]" by code_simp
  then have 5: "db_after \<noteq> db_example" by auto
  from 1 2 3 have "put_layout env_late 10 layout_example (JArr [seat_a1]) db_example = (Status 500, db_after)"
    by (intro failure_after_commit [where ev = "\<lparr>eventoid = 10, lugarid = Some 1\<rparr>" and others = "[]" and lugar = 1]) auto
  with 2 3 4 5 show ?thesis by simp
qed

subsection \<open>Reading the layout back\<close>

text \<open>
  C6. In a database where the venues have distinct keys and every event refers to a
  venue that exists (the primary key of Lugar and \<open>fk_evento_lugar\<close>), a read of the layout
  right after the write route has answered with the layout, and with no query of the read
  failing, returns the same layout document and the same seat list, in the same order.
\<close>

theorem get_after_put:
  assumes "put_layout e eventoID config asientos d = (Layout l s, d')"
      and "distinct (Lugar d)"
      and "\<forall>ev \<in> set (Evento d). \<forall>v. lugarid ev = Some v \<longrightarrow> v \<in> set (Lugar d)"
      and "\<not> io_fails e' Q_event \<and> \<not> io_fails e' Q_final_layout \<and> \<not> io_fails e' Q_final_seats"
  shows "get_layout e' eventoID d' = Layout l s"
proof -
  from put_layout_phases [OF assms(1)] obtain ev others where
    ev: "filter (\<lambda>r. eventoid r = eventoID) (Evento d) = ev # others" and
    fr: "Lugar d' = Lugar d" "Evento d' = Evento d" and
    ls: "l = select_layout d' eventoID JNull" "s = select_seats d' eventoID"
    by blast
  from assms(2,3) fr have "select_seats_via_lugar d' eventoID = select_seats d' eventoID"
    by (intro select_seats_via_lugar_eq) simp_all
  with ev fr ls assms(4) show ?thesis
    by (simp add: get_layout_def)
qed

theorem get_after_put_witness:
  "put_layout env_ok 10 layout_example (JArr [seat_a1]) db_example = (Layout layout_after seats_after, db_after)
   \<and> distinct (Lugar db_example)
   \<and> set (map lugarid (Evento db_example)) = {Some 1, Some 2} \<and> set (Lugar db_example) = {1, 2}
   \<and> get_layout env_ok 10 db_after = Layout layout_after seats_after"
proof -
  have 1: "distinct (Lugar db_example)" by code_simp
  have 2: "set (map lugarid (Evento db_example)) = {Some 1, Some 2}" "set (Lugar db_example) = {1, 2}"
    by (simp_all add: db_example_def)
  then have 3: "\<forall>ev \<in> set (Evento db_example). \<forall>v. lugarid ev = Some v \<longrightarrow> v \<in> set (Lugar db_example)"
    by (auto simp: db_example_def)
  have 4: "\<not> io_fails env_ok Q_event \<and> \<not> io_fails env_ok Q_final_layout \<and> \<not> io_fails env_ok Q_final_seats"
    by code_simp
  from get_after_put [OF example_put 1 3 4] example_put 1 2 show ?thesis by simp
qed

subsection \<open>Deleting an area\<close>

text \<open>
  C7. Take a request to delete an area that belongs to the venue of the event, with
  positive identifiers, no failing query, and a stored layout whose table list, if there
  is one, has no null entry (the write route stores no other:
  \<open>put_layout_no_null_tables\<close>). The route answers with the layout; the Area row is gone and
  so is every seat row under it, the other seat rows are as before; and when the event
  has a layout document with a table list, the layout returned is that document with the
  entries whose \<open>areaid\<close> is the deleted key taken out of the list, the other entries
  unchanged and in their order.
\<close>

theorem delete_area_removes:
  assumes "0 < eventoID \<and> 0 < areaID"
      and "\<forall>q. \<not> io_fails e q"
      and "area_check d areaID eventoID \<noteq> []"
      and "\<forall>r rs tables. select_croquis d eventoID = r # rs \<longrightarrow>
              getp (configuracion r) ''tables'' = Inr (JArr tables) \<longrightarrow>
              JNull \<notin> set tables \<and> JUndefined \<notin> set tables"
  shows "\<exists>l s d'. delete_area e eventoID areaID d = (Layout l s, d')
       \<and> Area d' = filter (\<lambda>ar. ar_areaid ar \<noteq> areaID) (Area d)
       \<and> Asiento d' = filter (\<lambda>a. areaid a \<noteq> areaID) (Asiento d)
       \<and> s = select_seats d' eventoID
       \<and> (\<forall>r rs tables. select_croquis d eventoID = r # rs \<longrightarrow>
              getp (configuracion r) ''tables'' = Inr (JArr tables) \<longrightarrow>
              l = setp (configuracion r) ''tables''
                    (JArr (filter (\<lambda>t. getp t ''areaid'' \<noteq> Inr (JNum areaID)) tables)))"
proof -
  let ?d1 = "delete_area_row areaID d"
  from assms(3) have ev: "filter (\<lambda>r. eventoid r = eventoID) (Evento d) \<noteq> []"
    and ar: "filter (\<lambda>ar. ar_areaid ar = areaID) (Area d) \<noteq> []"
    by (auto simp: area_check_def filter_empty_conv split: if_splits)
  have sc: "select_croquis ?d1 eventoID = select_croquis d eventoID"
    by (simp add: select_croquis_def delete_area_row_def)
  have "\<exists>d'. drop_tables e eventoID areaID ?d1 = Inr d'
          \<and> Area d' = Area ?d1 \<and> Asiento d' = Asiento ?d1
          \<and> (\<forall>r rs tables. select_croquis d eventoID = r # rs \<longrightarrow>
              getp (configuracion r) ''tables'' = Inr (JArr tables) \<longrightarrow>
              select_layout d' eventoID (JObj [(''tables'', JArr [])]) = setp (configuracion r) ''tables''
                    (JArr (filter (\<lambda>t. getp t ''areaid'' \<noteq> Inr (JNum areaID)) tables)))"
  proof (cases "select_croquis d eventoID")
    case Nil
    with sc assms(2) show ?thesis by (simp add: drop_tables_def)
  next
    case (Cons r rs)
    show ?thesis
    proof (cases "\<exists>tables. getp (configuracion r) ''tables'' = Inr (JArr tables)")
      case False
      with Cons sc assms(2) have "drop_tables e eventoID areaID ?d1 = Inr ?d1"
        by (cases "getp (configuracion r) ''tables''")
           (auto simp: drop_tables_def getp_truthy split: jv.splits)
      with False Cons show ?thesis by auto
    next
      case True
      then obtain tables where t: "getp (configuracion r) ''tables'' = Inr (JArr tables)" by blast
      then obtain kvs where kvs: "configuracion r = JObj kvs" by (cases "configuracion r") auto
      from assms(4) Cons t have "JNull \<notin> set tables" "JUndefined \<notin> set tables" by blast+
      then have ft: "filter_tables areaID tables
                = Inr (filter (\<lambda>t. getp t ''areaid'' \<noteq> Inr (JNum areaID)) tables)"
        by (rule filter_tables_Inr)
      let ?c = "setp (configuracion r) ''tables''
                    (JArr (filter (\<lambda>t. getp t ''areaid'' \<noteq> Inr (JNum areaID)) tables))"
      from Cons sc t kvs ft assms(2)
      have dt: "drop_tables e eventoID areaID ?d1 = update_croquis ?c eventoID ?d1"
        by (simp add: drop_tables_def)
      from kvs obtain kvs' where c: "?c = JObj kvs'" by simp
      then obtain d' where u: "update_croquis ?c eventoID ?d1 = Inr d'"
        by (simp add: update_croquis_def)
      from update_croquis_Inr [OF u] have fr: "Area d' = Area ?d1" "Asiento d' = Asiento ?d1" by auto
      from Cons sc have "select_croquis ?d1 eventoID = r # rs" by simp
      from select_layout_update [OF this u [unfolded c]] c
      have "select_layout d' eventoID (JObj [(''tables'', JArr [])]) = ?c" by simp
      with dt u fr Cons t show ?thesis by auto
    qed
  qed
  then obtain d' where dt: "drop_tables e eventoID areaID ?d1 = Inr d'"
    and fr: "Area d' = Area ?d1" "Asiento d' = Asiento ?d1"
    and lay: "\<forall>r rs tables. select_croquis d eventoID = r # rs \<longrightarrow>
              getp (configuracion r) ''tables'' = Inr (JArr tables) \<longrightarrow>
              select_layout d' eventoID (JObj [(''tables'', JArr [])]) = setp (configuracion r) ''tables''
                    (JArr (filter (\<lambda>t. getp t ''areaid'' \<noteq> Inr (JNum areaID)) tables))"
    by blast
  from assms(1,2,3) ev ar dt
  have "delete_area e eventoID areaID d =
          (Layout (select_layout d' eventoID (JObj [(''tables'', JArr [])])) (select_seats d' eventoID), d')"
    by (simp add: delete_area_def)
  moreover from fr have "Area d' = filter (\<lambda>ar. ar_areaid ar \<noteq> areaID) (Area d)"
    "Asiento d' = filter (\<lambda>a. areaid a \<noteq> areaID) (Asiento d)"
    by (simp_all add: delete_area_row_def)
  ultimately show ?thesis using lay by blast
qed

theorem delete_area_removes_witness:
  "area_check db_after 7 10 \<noteq> []
   \<and> select_croquis db_after 10 = [\<lparr>croquisid = 3, cr_eventoid = 10, configuracion = layout_after\<rparr>]
   \<and> getp layout_after ''tables'' = Inr (JArr [JObj [(''id'', JStr ''area-7''), (''areaid'', JNum 7),
             (''nombre'', JStr ''Mesa 1''), (''capacidad'', JNum 8), (''tipo'', JStr ''GENERAL'')]])
   \<and> delete_area env_ok 10 7 db_after =
       (Layout (JObj [(''tables'', JArr [])])
          [\<lparr>asientoid = 1, codigo = Some ''S1'', fila = None, columna = None,
            estado = ''DISPONIBLE'', areaid = 5\<rparr>],
        db_example\<lparr>Croquis := [\<lparr>croquisid = 3, cr_eventoid = 10,
                                 configuracion = JObj [(''tables'', JArr [])]\<rparr>]\<rparr>)
   \<and> (\<exists>l s d'. delete_area env_ok 10 7 db_after = (Layout l s, d')
         \<and> Asiento d' = Asiento db_example \<and> Area d' = Area db_example
         \<and> l = JObj [(''tables'', JArr [])])"
proof -
  have 1: "area_check db_after 7 10 \<noteq> []" by code_simp
  have 2: "select_croquis db_after 10 = [\<lparr>croquisid = 3, cr_eventoid = 10, configuracion = layout_after\<rparr>]"
    by code_simp
  have 3: "getp layout_after ''tables'' = Inr (JArr [JObj [(''id'', JStr ''area-7''), (''areaid'', JNum 7),
             (''nombre'', JStr ''Mesa 1''), (''capacidad'', JNum 8), (''tipo'', JStr ''GENERAL'')]])"
    by code_simp
  have 4: "delete_area env_ok 10 7 db_after =
       (Layout (JObj [(''tables'', JArr [])])
          [\<lparr>asientoid = 1, codigo = Some ''S1'', fila = None, columna = None,
            estado = ''DISPONIBLE'', areaid = 5\<rparr>],
        db_example\<lparr>Croquis := [\<lparr>croquisid = 3, cr_eventoid = 10,
                                 configuracion = JObj [(''tables'', JArr [])]\<rparr>]\<rparr>)"
    by code_simp
  have 5: "\<forall>q. \<not> io_fails env_ok q" by (simp add: env_ok_def)
  have 6: "\<forall>r rs tables. select_croquis db_after 10 = r # rs \<longrightarrow>
              getp (configuracion r) ''tables'' = Inr (JArr tables) \<longrightarrow>
              JNull \<notin> set tables \<and> JUndefined \<notin> set tables"
    unfolding 2 using 3 by auto
  have 7: "filter (\<lambda>ar. ar_areaid ar \<noteq> 7) (Area db_after) = Area db_example"
    "filter (\<lambda>a. areaid a \<noteq> 7) (Asiento db_after) = Asiento db_example"
    by code_simp+
  from delete_area_removes [OF _ 5 1 6] obtain l s d' where
    r: "delete_area env_ok 10 7 db_after = (Layout l s, d')"
       "Area d' = filter (\<lambda>ar. ar_areaid ar \<noteq> 7) (Area db_after)"
       "Asiento d' = filter (\<lambda>a. areaid a \<noteq> 7) (Asiento db_after)"
    by auto
  with 4 have "l = JObj [(''tables'', JArr [])]" by simp
  with r 7 have "\<exists>l s d'. delete_area env_ok 10 7 db_after = (Layout l s, d')
         \<and> Asiento d' = Asiento db_example \<and> Area d' = Area db_example
         \<and> l = JObj [(''tables'', JArr [])]" by auto
  with 1 2 3 4 show ?thesis by simp
qed

end
